theory Spec2Isabelle
  imports Main
begin

section \<open>Python values, exceptions and effects\<close>

text \<open>
  The plugin \<^verbatim>\<open>BaseVMAppPlugin\<close> (file \<^verbatim>\<open>backend_plugins/base_vm_app.py\<close>) works on JSON-like
  dictionaries and on resource objects handed out by the CloudBridge provider.
  Dictionary values are modelled by \<open>pyval\<close>; a dictionary is an association list, so that
  lookups and merges compute, and it holds each key once.  \<open>PNone\<close> is Python's \<^verbatim>\<open>None\<close>.
  Floating-point numbers are left out: the plugin does not compute with them.  Calls to the
  logger have no effect on results and are left out as well.
\<close>

datatype pyval =
    PNone
  | PBool bool
  | PInt int
  | PStr string
  | PList "pyval list"
  | PDict "(string \<times> pyval) list"

type_synonym dict = "(string \<times> pyval) list"

text \<open>
  Every exception the code can meet is a subclass of \<^verbatim>\<open>Exception\<close>, so that
  \<^verbatim>\<open>except Exception\<close> catches it.  It carries its message (Python's quotation marks left out);
  \<open>CloudError\<close> stands for the provider's and the collaborators' own exceptions.
\<close>

datatype exn_kind = AttributeError | TypeError | IndexError | ValueError | CloudError

datatype error = Exn exn_kind string

fun exn_msg :: "error \<Rightarrow> string" where
  "exn_msg (Exn k m) = m"

text \<open>Truth value testing (\<^verbatim>\<open>if x:\<close>, \<^verbatim>\<open>x or y\<close>).\<close>

fun truthy :: "pyval \<Rightarrow> bool" where
  "truthy PNone = False"
| "truthy (PBool b) = b"
| "truthy (PInt n) = (n \<noteq> 0)"
| "truthy (PStr s) = (s \<noteq> [])"
| "truthy (PList xs) = (xs \<noteq> [])"
| "truthy (PDict kvs) = (kvs \<noteq> [])"

definition py_or :: "pyval \<Rightarrow> pyval \<Rightarrow> pyval" where
  "py_or a b = (if truthy a then a else b)"

text \<open>\<^verbatim>\<open>d.get(k, default)\<close> on a value known to be a dictionary.\<close>

definition dict_get :: "dict \<Rightarrow> string \<Rightarrow> pyval \<Rightarrow> pyval" where
  "dict_get d k dflt = (case map_of d k of None \<Rightarrow> dflt | Some v \<Rightarrow> v)"

text \<open>\<^verbatim>\<open>x.get(k, default)\<close> on an arbitrary value: only dictionaries have \<^verbatim>\<open>get\<close>.\<close>

fun py_get :: "pyval \<Rightarrow> string \<Rightarrow> pyval \<Rightarrow> error + pyval" where
  "py_get (PDict d) k dflt = Inr (dict_get d k dflt)"
| "py_get v k dflt = Inl (Exn AttributeError ''object has no attribute get'')"

text \<open>\<^verbatim>\<open>d[k] = v\<close>: an existing key keeps its position, a new key goes last.\<close>

fun dict_set :: "dict \<Rightarrow> string \<Rightarrow> pyval \<Rightarrow> dict" where
  "dict_set [] k v = [(k, v)]"
| "dict_set ((k', v') # d) k v = (if k' = k then (k, v) # d else (k', v') # dict_set d k v)"

text \<open>\<^verbatim>\<open>{**p, **c}\<close>: the entries of \<open>p\<close>, then those of \<open>c\<close> stored over them, left to right.\<close>

definition dict_merge :: "dict \<Rightarrow> dict \<Rightarrow> dict" where
  "dict_merge p c = fold (\<lambda>(k, v) d. dict_set d k v) c p"

text \<open>
  Effects.  A call to the provider (or to another collaborator) reads and changes the
  state of the world \<open>'s\<close> and either returns a value or raises; the state reached is kept
  in both cases.
\<close>

type_synonym ('a, 's) cmd = "'s \<Rightarrow> (error + 'a) \<times> 's"

definition ret :: "'a \<Rightarrow> ('a, 's) cmd" where
  "ret x = (\<lambda>s. (Inr x, s))"

definition throw :: "error \<Rightarrow> ('a, 's) cmd" where
  "throw e = (\<lambda>s. (Inl e, s))"

definition pure_res :: "error + 'a \<Rightarrow> ('a, 's) cmd" where
  "pure_res r = (\<lambda>s. (r, s))"

definition bnd :: "('a, 's) cmd \<Rightarrow> ('a \<Rightarrow> ('b, 's) cmd) \<Rightarrow> ('b, 's) cmd" where
  "bnd m f = (\<lambda>s. case m s of (Inl e, s') \<Rightarrow> (Inl e, s') | (Inr x, s') \<Rightarrow> f x s')"

text \<open>\<^verbatim>\<open>try: m  except Exception as e: h(e)\<close>\<close>

definition try_except :: "('a, 's) cmd \<Rightarrow> (error \<Rightarrow> ('a, 's) cmd) \<Rightarrow> ('a, 's) cmd" where
  "try_except m h = (\<lambda>s. case m s of (Inl e, s') \<Rightarrow> h e s' | (Inr x, s') \<Rightarrow> (Inr x, s'))"

text \<open>Sequencing of pure computations that may raise.\<close>

definition bind_res :: "error + 'a \<Rightarrow> ('a \<Rightarrow> error + 'b) \<Rightarrow> error + 'b" where
  "bind_res r f = (case r of Inl e \<Rightarrow> Inl e | Inr x \<Rightarrow> f x)"

section \<open>Provider resources\<close>

text \<open>
  Resource objects are snapshots of what the provider reported.  Attributes the plugin reads
  locally are fields; attributes and methods that go to the provider are operations of the
  provider interface below.
\<close>

record key_pair =
  keypair_id :: string
  keypair_name :: string
  keypair_material :: pyval

record vm_firewall =
  fw_id :: string
  fw_name :: string
  fw_network_id :: "string option"

record subnet =
  sn_id :: string
  sn_network_id :: "string option"
  sn_zone :: string

record network =
  nw_id :: string

record router =
  rtr_id :: string
  rtr_network_id :: "string option"

record gateway =
  gw_id :: string

record floating_ip =
  fip_id :: string
  public_ip :: string
  in_use :: bool

record image =
  img_id :: string

record vm_instance =
  inst_id :: string
  inst_state :: string
  public_ips :: "string list"
  private_ips :: "string list"

datatype instance_state = DELETED | UNKNOWN | ERROR

text \<open>\<^verbatim>\<open>inst.add_floating_ip\<close> is given a floating-IP object or the configured address.\<close>

datatype fip_ref = FipObject floating_ip | FipAddress pyval

text \<open>The source of an inbound rule: \<^verbatim>\<open>src_dest_fw=\<close> or \<^verbatim>\<open>cidr=\<close>.\<close>

datatype rule_source = SrcFirewall vm_firewall | SrcCidr pyval

datatype direction = INBOUND | OUTBOUND

record rule_request =
  rr_direction :: direction
  rr_protocol :: pyval
  rr_from_port :: int
  rr_to_port :: int
  rr_source :: rule_source

record volume_device =
  vd_source :: "image option"
  vd_size :: int
  vd_is_root :: bool

datatype launch_config = LaunchConfig "volume_device list"

record launch_request =
  lr_label :: string
  lr_image :: "image option"
  lr_vm_type :: pyval
  lr_subnet :: "subnet option"
  lr_key_pair :: key_pair
  lr_vm_firewalls :: "vm_firewall list option"
  lr_zone :: pyval
  lr_user_data :: pyval
  lr_launch_config :: "launch_config option"

section \<open>The provider capability interface\<close>

text \<open>
  CloudBridge is an external library: its operations are parameters of the model.  Each may
  change the world and may raise.  A \<^verbatim>\<open>get\<close> that finds nothing returns \<^verbatim>\<open>None\<close>.
\<close>

record 's security_service =
  key_pairs_find :: "pyval \<Rightarrow> (key_pair list, 's) cmd"
  key_pairs_create :: "pyval \<Rightarrow> (key_pair, 's) cmd"
  vm_firewalls_find :: "pyval \<Rightarrow> (vm_firewall list, 's) cmd"
  vm_firewalls_create :: "pyval \<Rightarrow> string option \<Rightarrow> pyval \<Rightarrow> (vm_firewall, 's) cmd"
  rules_create :: "vm_firewall \<Rightarrow> rule_request \<Rightarrow> (unit, 's) cmd"

record 's networking_service =
  networks_get :: "pyval \<Rightarrow> (network option, 's) cmd"
  network_subnets :: "network \<Rightarrow> (subnet list, 's) cmd"
  subnets_get :: "pyval \<Rightarrow> (subnet option, 's) cmd"
  subnets_get_or_create_default :: "pyval \<Rightarrow> (subnet option, 's) cmd"
  subnet_network :: "subnet \<Rightarrow> (network option, 's) cmd"
  subnet_network_name :: "subnet \<Rightarrow> (string, 's) cmd"
  routers_list :: "(router list, 's) cmd"
  routers_create :: "string \<Rightarrow> string option \<Rightarrow> (router, 's) cmd"
  router_subnets :: "router \<Rightarrow> (subnet list, 's) cmd"
  attach_gateway :: "router \<Rightarrow> gateway \<Rightarrow> (unit, 's) cmd"
  attach_subnet :: "router \<Rightarrow> subnet \<Rightarrow> (unit, 's) cmd"
  get_or_create_inet_gateway :: "network \<Rightarrow> (gateway, 's) cmd"
  gateway_floating_ips :: "gateway \<Rightarrow> (floating_ip list, 's) cmd"
  floating_ips_create :: "gateway \<Rightarrow> (floating_ip, 's) cmd"

record 's compute_service =
  images_get :: "pyval \<Rightarrow> (image option, 's) cmd"
  create_launch_config :: "(launch_config, 's) cmd"
  add_volume_device :: "launch_config \<Rightarrow> image option \<Rightarrow> int \<Rightarrow> bool \<Rightarrow> (launch_config, 's) cmd"
  instances_create :: "launch_request \<Rightarrow> (vm_instance, 's) cmd"
  instances_get :: "pyval \<Rightarrow> (vm_instance option, 's) cmd"
  wait_till_ready :: "vm_instance \<Rightarrow> (vm_instance, 's) cmd"
  add_floating_ip :: "vm_instance \<Rightarrow> fip_ref \<Rightarrow> (unit, 's) cmd"
  refresh :: "vm_instance \<Rightarrow> (vm_instance, 's) cmd"
  reboot :: "vm_instance \<Rightarrow> (unit, 's) cmd"
  inst_delete :: "vm_instance \<Rightarrow> (unit, 's) cmd"
  wait_for :: "vm_instance \<Rightarrow> instance_state list \<Rightarrow> instance_state list \<Rightarrow> (unit, 's) cmd"

record 's provider =
  security :: "'s security_service"
  networking :: "'s networking_service"
  compute :: "'s compute_service"

text \<open>
  Python built-ins and the \<^verbatim>\<open>ipaddress\<close> module are parameters too: \<^verbatim>\<open>int(x)\<close>,
  \<^verbatim>\<open>str(x)\<close> as used by string formatting, and \<^verbatim>\<open>ipaddress.ip_address(x).is_global\<close>, which
  raises \<^verbatim>\<open>ValueError\<close> on text that is not an address.
\<close>

record py_runtime =
  int_py :: "pyval \<Rightarrow> error + int"
  str_py :: "pyval \<Rightarrow> string"
  ip_is_global :: "string \<Rightarrow> error + bool"

text \<open>
  The progress sink (\<^verbatim>\<open>task.update_state(state=..., meta={'action': ...})\<close>) records an
  event in the world; it is taken not to raise.  The configurer and the key generator are
  collaborators outside this file: \<^verbatim>\<open>configurers.create_configurer\<close> and
  \<^verbatim>\<open>generate_key_pair\<close>, which returns the public and the private key.
\<close>

record 's task =
  update_state :: "string \<Rightarrow> string \<Rightarrow> 's \<Rightarrow> 's"

record 's configurer =
  validate :: "dict \<Rightarrow> dict \<Rightarrow> (unit, 's) cmd"
  configure :: "dict \<Rightarrow> dict \<Rightarrow> (pyval, 's) cmd"

record 's collaborators =
  generate_key_pair :: "(string \<times> string, 's) cmd"
  create_configurer :: "dict \<Rightarrow> ('s configurer, 's) cmd"

definition emit :: "'s task \<Rightarrow> string \<Rightarrow> string \<Rightarrow> (unit, 's) cmd" where
  "emit T st action = (\<lambda>s. (Inr (), update_state T st action s))"

section \<open>More of Python\<close>

text \<open>Iteration (\<^verbatim>\<open>for x in v\<close>): a dictionary yields its keys, a string its characters.\<close>

fun py_iter :: "pyval \<Rightarrow> error + pyval list" where
  "py_iter (PList xs) = Inr xs"
| "py_iter (PDict kvs) = Inr (map (\<lambda>(k, v). PStr k) kvs)"
| "py_iter (PStr s) = Inr (map (\<lambda>c. PStr [c]) s)"
| "py_iter v = Inl (Exn TypeError ''object is not iterable'')"

text \<open>\<^verbatim>\<open>v += "text"\<close>: a string is extended, a list takes the characters, anything else raises.\<close>

fun py_add_str :: "pyval \<Rightarrow> string \<Rightarrow> error + pyval" where
  "py_add_str (PStr s) t = Inr (PStr (s @ t))"
| "py_add_str (PList xs) t = Inr (PList (xs @ map (\<lambda>c. PStr [c]) t))"
| "py_add_str v t = Inl (Exn TypeError ''unsupported operand type(s) for +='')"

text \<open>\<^verbatim>\<open>s.split(c)\<close> for a one-character separator.\<close>

fun split_on :: "char \<Rightarrow> string \<Rightarrow> string list" where
  "split_on c [] = [[]]"
| "split_on c (x # xs) =
     (if x = c then [] # split_on c xs
      else (case split_on c xs of [] \<Rightarrow> [[x]] | w # ws \<Rightarrow> (x # w) # ws))"

text \<open>\<^verbatim>\<open>rc.split(" ")\<close> on an arbitrary value: only strings have \<^verbatim>\<open>split\<close> here.\<close>

fun py_split_space :: "pyval \<Rightarrow> error + pyval" where
  "py_split_space (PStr s) = Inr (PList (map PStr (split_on CHR '' '' s)))"
| "py_split_space v = Inl (Exn AttributeError ''object has no attribute split'')"

definition opt_str :: "string option \<Rightarrow> pyval" where
  "opt_str x = (case x of None \<Rightarrow> PNone | Some s \<Rightarrow> PStr s)"

definition newline :: string where
  "newline = [CHR 0x0A]"

section \<open>Key pairs, firewalls and launch configuration\<close>

text \<open>\<^verbatim>\<open>_get_or_create_kp(self, provider, kp_name)\<close>\<close>

definition get_or_create_kp :: "'s provider \<Rightarrow> pyval \<Rightarrow> (key_pair, 's) cmd" where
  "get_or_create_kp P kp_name =
    bnd (key_pairs_find (security P) kp_name) (\<lambda>kps.
      case kps of
        kp # _ \<Rightarrow> ret kp
      | [] \<Rightarrow> key_pairs_create (security P) kp_name)"

text \<open>
  \<^verbatim>\<open>_get_or_create_vmf(self, provider, subnet, vmf_name, description)\<close>: the first firewall
  found under the label that has no network id or the subnet's network id, else a new one.
\<close>

definition get_or_create_vmf ::
  "'s provider \<Rightarrow> subnet option \<Rightarrow> pyval \<Rightarrow> pyval \<Rightarrow> (vm_firewall, 's) cmd" where
  "get_or_create_vmf P subnet vmf_name description =
    (let network_id = (case subnet of None \<Rightarrow> None | Some sn \<Rightarrow> sn_network_id sn) in
     bnd (vm_firewalls_find (security P) vmf_name) (\<lambda>vmfs.
       case List.find (\<lambda>vmf. fw_network_id vmf = None \<or> fw_network_id vmf = network_id) vmfs of
         Some vmf \<Rightarrow> ret vmf
       | None \<Rightarrow> vm_firewalls_create (security P) vmf_name network_id description))"

text \<open>\<^verbatim>\<open>_get_cb_launch_config(self, provider, image, cloudlaunch_config)\<close>\<close>

definition get_cb_launch_config ::
  "'s provider \<Rightarrow> py_runtime \<Rightarrow> image option \<Rightarrow> dict \<Rightarrow> (launch_config option, 's) cmd" where
  "get_cb_launch_config P E img cloudlaunch_config =
    (if dict_get cloudlaunch_config ''rootStorageType'' (PStr ''instance'') = PStr ''volume'' then
       bnd (create_launch_config (compute P)) (\<lambda>lc.
       bnd (pure_res (int_py E (dict_get cloudlaunch_config ''rootStorageSize'' (PInt 20)))) (\<lambda>sz.
       bnd (add_volume_device (compute P) lc img sz True) (\<lambda>lc'.
         ret (Some lc'))))
     else ret None)"

section \<open>Public address resolution\<close>

text \<open>
  \<^verbatim>\<open>attach_public_ip(self, provider, inst, network_id)\<close>.  \<^verbatim>\<open>inst.private_ips[0]\<close> raises
  \<^verbatim>\<open>IndexError\<close> on an empty list; \<^verbatim>\<open>net.gateways\<close> raises \<^verbatim>\<open>AttributeError\<close> when the
  network was not found.  The loop over \<^verbatim>\<open>gateway.floating_ips\<close> keeps the first address
  that is not in use.
\<close>

definition attach_public_ip ::
  "'s provider \<Rightarrow> py_runtime \<Rightarrow> vm_instance \<Rightarrow> pyval \<Rightarrow> (string, 's) cmd" where
  "attach_public_ip P E inst network_id =
    (if length (public_ips inst) > 0 \<and> hd (public_ips inst) \<noteq> [] then
       ret (hd (public_ips inst))
     else
       (case private_ips inst of
          [] \<Rightarrow> throw (Exn IndexError ''list index out of range'')
        | priv # _ \<Rightarrow>
            bnd (pure_res (ip_is_global E priv)) (\<lambda>is_global.
              if is_global then ret priv
              else
                bnd (networks_get (networking P) network_id) (\<lambda>net_opt.
                  case net_opt of
                    None \<Rightarrow> throw (Exn AttributeError ''NoneType object has no attribute gateways'')
                  | Some net \<Rightarrow>
                      bnd (get_or_create_inet_gateway (networking P) net) (\<lambda>gw.
                      bnd (gateway_floating_ips (networking P) gw) (\<lambda>ips.
                        case List.find (\<lambda>ip. \<not> in_use ip) ips of
                          Some fip \<Rightarrow>
                            bnd (add_floating_ip (compute P) inst (FipObject fip)) (\<lambda>_.
                              ret (public_ip fip))
                        | None \<Rightarrow>
                            bnd (floating_ips_create (networking P) gw) (\<lambda>fip.
                            bnd (add_floating_ip (compute P) inst (FipObject fip)) (\<lambda>_.
                              ret (public_ip fip)))))))))"

section \<open>Firewall resolution\<close>

text \<open>
  The two calls \<^verbatim>\<open>vmf.rules.create(...)\<close> of \<^verbatim>\<open>configure_vm_firewalls\<close>: the request
  built for one rule.  Arguments are evaluated left to right, so \<^verbatim>\<open>int(rule.get('from'))\<close>
  raises before \<^verbatim>\<open>int(rule.get('to'))\<close>.
\<close>

definition rule_request_of :: "py_runtime \<Rightarrow> vm_firewall \<Rightarrow> pyval \<Rightarrow> error + rule_request" where
  "rule_request_of E vmf rule =
    bind_res (py_get rule ''src_group'' PNone) (\<lambda>src_group.
      if truthy src_group then
        bind_res (py_get rule ''protocol'' PNone) (\<lambda>protocol.
        bind_res (py_get rule ''from'' PNone) (\<lambda>from_v.
        bind_res (int_py E from_v) (\<lambda>from_port.
        bind_res (py_get rule ''to'' PNone) (\<lambda>to_v.
        bind_res (int_py E to_v) (\<lambda>to_port.
          Inr \<lparr>rr_direction = INBOUND, rr_protocol = protocol, rr_from_port = from_port,
               rr_to_port = to_port, rr_source = SrcFirewall vmf\<rparr>)))))
      else
        bind_res (py_get rule ''protocol'' PNone) (\<lambda>protocol.
        bind_res (py_get rule ''from'' PNone) (\<lambda>from_v.
        bind_res (int_py E from_v) (\<lambda>from_port.
        bind_res (py_get rule ''to'' PNone) (\<lambda>to_v.
        bind_res (int_py E to_v) (\<lambda>to_port.
        bind_res (py_get rule ''cidr'' PNone) (\<lambda>cidr.
          Inr \<lparr>rr_direction = INBOUND, rr_protocol = protocol, rr_from_port = from_port,
               rr_to_port = to_port, rr_source = SrcCidr cidr\<rparr>)))))))"

text \<open>The inner loop \<^verbatim>\<open>for rule in group.get('rules', [])\<close> with its \<^verbatim>\<open>try\<close>/\<^verbatim>\<open>except\<close>.\<close>

fun apply_rules :: "'s provider \<Rightarrow> py_runtime \<Rightarrow> vm_firewall \<Rightarrow> pyval list \<Rightarrow> (unit, 's) cmd" where
  "apply_rules P E vmf [] = ret ()"
| "apply_rules P E vmf (rule # rules) =
     bnd (try_except
            (bnd (pure_res (rule_request_of E vmf rule)) (rules_create (security P) vmf))
            (\<lambda>e. ret ()))
       (\<lambda>_. apply_rules P E vmf rules)"

text \<open>
  \<^verbatim>\<open>configure_vm_firewalls(self, provider, subnet, firewall)\<close>.  The \<^verbatim>\<open>return vmfl\<close> is inside
  the loop over the groups, after the loop over the rules: the first iteration returns, and
  a loop that never runs falls off the end of the function, which returns \<^verbatim>\<open>None\<close>.
\<close>

definition configure_vm_firewalls ::
  "'s provider \<Rightarrow> py_runtime \<Rightarrow> subnet option \<Rightarrow> pyval \<Rightarrow> (vm_firewall list option, 's) cmd" where
  "configure_vm_firewalls P E subnet firewall =
    (let vmfl = [] in
     bnd (pure_res (py_iter firewall)) (\<lambda>groups.
       case groups of
         [] \<Rightarrow> ret None
       | grp # _ \<Rightarrow>
           bnd (pure_res (py_get grp ''securityGroup'' PNone)) (\<lambda>sg.
           bnd (pure_res (py_get grp ''description'' PNone)) (\<lambda>d.
           bnd (get_or_create_vmf P subnet (py_or sg (PStr ''cloudlaunch''))
                  (py_or d (PStr ''Created by CloudLaunch''))) (\<lambda>vmf.
           bnd (pure_res (py_get grp ''rules'' (PList []))) (\<lambda>rs.
           bnd (pure_res (py_iter rs)) (\<lambda>rules.
           bnd (apply_rules P E vmf rules) (\<lambda>_.
             ret (Some (vmfl @ [vmf]))))))))))"

section \<open>Network resolution\<close>

text \<open>\<^verbatim>\<open>get_or_create_default_subnet(self, provider, network_id, placement)\<close>\<close>

definition get_or_create_default_subnet ::
  "'s provider \<Rightarrow> pyval \<Rightarrow> pyval \<Rightarrow> (subnet option, 's) cmd" where
  "get_or_create_default_subnet P network_id placement =
    (let dflt = subnets_get_or_create_default (networking P)
                  (if \<not> truthy placement then PStr [] else placement) in
     if truthy network_id then
       bnd (networks_get (networking P) network_id) (\<lambda>net_opt.
         case net_opt of
           None \<Rightarrow> throw (Exn AttributeError ''NoneType object has no attribute subnets'')
         | Some net \<Rightarrow>
             bnd (network_subnets (networking P) net) (\<lambda>sns.
               case List.find (\<lambda>sn. \<not> truthy placement \<or> PStr (sn_zone sn) = placement) sns of
                 Some sn \<Rightarrow> ret (Some sn)
               | None \<Rightarrow> dflt))
     else dflt)"

text \<open>The loop \<^verbatim>\<open>for router in found_routers: for sn in router.subnets: ...\<close>\<close>

fun subnet_on_router :: "'s provider \<Rightarrow> subnet \<Rightarrow> router list \<Rightarrow> (bool, 's) cmd" where
  "subnet_on_router P subnet [] = ret False"
| "subnet_on_router P subnet (router # routers) =
     bnd (router_subnets (networking P) router) (\<lambda>sns.
       if \<exists>sn \<in> set sns. sn_id sn = sn_id subnet then ret True
       else subnet_on_router P subnet routers)"

text \<open>The loop \<^verbatim>\<open>for sn in subnet.network.subnets: router.attach_subnet(sn)\<close>\<close>

fun attach_subnets :: "'s provider \<Rightarrow> router \<Rightarrow> subnet list \<Rightarrow> (unit, 's) cmd" where
  "attach_subnets P router [] = ret ()"
| "attach_subnets P router (sn # sns) =
     bnd (attach_subnet (networking P) router sn) (\<lambda>_. attach_subnets P router sns)"

text \<open>
  The body of the outer \<^verbatim>\<open>try\<close> of \<^verbatim>\<open>setup_networking\<close>; \<open>True\<close> stands for the early
  \<^verbatim>\<open>return subnet\<close>.  With no subnet (\<^verbatim>\<open>None\<close>), \<^verbatim>\<open>subnet.network_id\<close> raises in the
  comprehension when there is a router, and \<^verbatim>\<open>subnet._network\<close> raises when there is none.
\<close>

definition connect_subnet :: "'s provider \<Rightarrow> subnet option \<Rightarrow> (bool, 's) cmd" where
  "connect_subnet P subnet_opt =
    bnd (routers_list (networking P)) (\<lambda>routers.
      case subnet_opt of
        None \<Rightarrow> throw (Exn AttributeError ''NoneType object has no attribute'')
      | Some subnet \<Rightarrow>
          (let found_routers = filter (\<lambda>router. rtr_network_id router = sn_network_id subnet) routers in
           bnd (subnet_on_router P subnet found_routers) (\<lambda>attached.
             if attached then ret True
             else
               bnd (subnet_network_name (networking P) subnet) (\<lambda>name.
               bnd (routers_create (networking P) (''cl-router-'' @ name) (sn_network_id subnet)) (\<lambda>router.
               bnd (networks_get (networking P) (opt_str (sn_network_id subnet))) (\<lambda>net_opt.
                 case net_opt of
                   None \<Rightarrow> throw (Exn AttributeError ''NoneType object has no attribute id'')
                 | Some net \<Rightarrow>
                     bnd (get_or_create_inet_gateway (networking P) net) (\<lambda>gw.
                     bnd (attach_gateway (networking P) router gw) (\<lambda>_.
                     bnd (try_except
                            (bnd (subnet_network (networking P) subnet) (\<lambda>n_opt.
                               case n_opt of
                                 None \<Rightarrow> throw (Exn AttributeError ''NoneType object has no attribute subnets'')
                               | Some n \<Rightarrow>
                                   bnd (network_subnets (networking P) n) (attach_subnets P router)))
                            (\<lambda>e. ret ()))
                       (\<lambda>_. ret False)))))))))"

text \<open>\<^verbatim>\<open>setup_networking(self, provider, net_id, subnet_id, placement)\<close>\<close>

definition setup_networking ::
  "'s provider \<Rightarrow> pyval \<Rightarrow> pyval \<Rightarrow> pyval \<Rightarrow> (subnet option, 's) cmd" where
  "setup_networking P net_id subnet_id placement =
    bnd (if truthy subnet_id then subnets_get (networking P) subnet_id
         else get_or_create_default_subnet P net_id placement) (\<lambda>subnet.
    bnd (try_except (connect_subnet P subnet) (\<lambda>e. ret False)) (\<lambda>_.
      ret subnet))"

text \<open>\<^verbatim>\<open>resolve_launch_properties(self, provider, cloudlaunch_config)\<close>\<close>

definition resolve_launch_properties ::
  "'s provider \<Rightarrow> py_runtime \<Rightarrow> dict \<Rightarrow> (subnet option \<times> pyval \<times> vm_firewall list option, 's) cmd" where
  "resolve_launch_properties P E cloudlaunch_config =
    (let net_id = dict_get cloudlaunch_config ''network'' PNone;
         subnet_id = dict_get cloudlaunch_config ''subnet'' PNone;
         placement = dict_get cloudlaunch_config ''placementZone'' (PStr [])
     in
     bnd (setup_networking P net_id subnet_id placement) (\<lambda>subnet.
       if truthy (dict_get cloudlaunch_config ''firewall'' PNone) then
         bnd (configure_vm_firewalls P E subnet (dict_get cloudlaunch_config ''firewall'' PNone)) (\<lambda>vmf.
           ret (subnet, placement, vmf))
       else ret (subnet, placement, None)))"

section \<open>Provisioning\<close>

text \<open>
  The user-data part of \<^verbatim>\<open>_provision_host\<close>: the cloud-init directives appended for the
  generated SSH key and the run commands.  \<^verbatim>\<open>"{0}".format(x)\<close> is \<^verbatim>\<open>str(x)\<close>.
\<close>

fun add_run_cmds :: "py_runtime \<Rightarrow> pyval \<Rightarrow> pyval list \<Rightarrow> error + pyval" where
  "add_run_cmds E user_data [] = Inr user_data"
| "add_run_cmds E user_data (rc # rcs) =
     bind_res (py_split_space rc) (\<lambda>parts.
     bind_res (py_add_str user_data (newline @ '' - '' @ str_py E parts @ newline @ '' '')) (\<lambda>user_data'.
       add_run_cmds E user_data' rcs))"

definition build_user_data :: "py_runtime \<Rightarrow> dict \<Rightarrow> pyval \<Rightarrow> error + pyval" where
  "build_user_data E provider_config user_data =
    bind_res (if truthy (dict_get provider_config ''ssh_public_key'' PNone)
                 \<or> truthy (dict_get provider_config ''run_cmd'' PNone)
              then py_add_str user_data (newline @ ''#cloud-config'' @ newline)
              else Inr user_data) (\<lambda>ud1.
    bind_res (if truthy (dict_get provider_config ''ssh_public_key'' PNone)
              then py_add_str ud1 (newline @ ''ssh_authorized_keys:'' @ newline @ ''    - ''
                     @ str_py E (dict_get provider_config ''ssh_public_key'' PNone))
              else Inr ud1) (\<lambda>ud2.
      if truthy (dict_get provider_config ''run_cmd'' PNone) then
        bind_res (py_add_str ud2 (newline @ ''runcmd:'')) (\<lambda>ud3.
        bind_res (py_iter (dict_get provider_config ''run_cmd'' PNone)) (\<lambda>rcs.
          add_run_cmds E ud3 rcs))
      else Inr ud2))"

text \<open>
  The last part of \<^verbatim>\<open>_provision_host\<close>, from \<^verbatim>\<open>results = {}\<close> to the \<^verbatim>\<open>return\<close>: the
  result record is filled in the order \<^verbatim>\<open>keyPair\<close>, \<^verbatim>\<open>securityGroup\<close>, \<^verbatim>\<open>instance\<close>,
  \<^verbatim>\<open>publicIP\<close>.  \<^verbatim>\<open>vmfl[0]\<close> raises \<^verbatim>\<open>TypeError\<close> when \<^verbatim>\<open>vmfl\<close> is \<^verbatim>\<open>None\<close> and
  \<^verbatim>\<open>IndexError\<close> when it is the empty list.
\<close>

definition assemble_results ::
  "'s task \<Rightarrow> 's provider \<Rightarrow> py_runtime \<Rightarrow> key_pair \<Rightarrow> vm_firewall list option \<Rightarrow> vm_instance
     \<Rightarrow> subnet option \<Rightarrow> (dict, 's) cmd" where
  "assemble_results T P E kp vmfl inst subnet =
    (let key_pair_v = PDict [(''id'', PStr (keypair_id kp)), (''name'', PStr (keypair_name kp)),
                             (''material'', keypair_material kp)] in
     case vmfl of
       None \<Rightarrow> throw (Exn TypeError ''NoneType object is not subscriptable'')
     | Some [] \<Rightarrow> throw (Exn IndexError ''list index out of range'')
     | Some (vmf0 # _) \<Rightarrow>
         bnd (attach_public_ip P E inst
                (case subnet of None \<Rightarrow> PNone | Some sn \<Rightarrow> opt_str (sn_network_id sn))) (\<lambda>ip.
         (let results = [(''keyPair'', key_pair_v),
                         (''securityGroup'', PDict [(''id'', PStr (fw_id vmf0)),
                                                    (''name'', PStr (fw_name vmf0))]),
                         (''instance'', PDict [(''id'', PStr (inst_id inst))]),
                         (''publicIP'', PStr ip)] in
         bnd (emit T ''PROGRESSING''
                (''Instance created successfully. Public IP: '' @ str_py E (PStr ip))) (\<lambda>_.
           ret [(''cloudLaunch'', PDict results)]))))"

text \<open>
  \<^verbatim>\<open>_provision_host(self, name, task, app_config, provider_config)\<close>.  The provider object
  \<^verbatim>\<open>provider_config['cloud_provider']\<close> is the parameter \<open>P\<close>.  The first statement that
  touches \<^verbatim>\<open>cloudlaunch_config\<close> is a \<^verbatim>\<open>.get\<close>, before any effect, so a value that is not a
  dictionary raises there.
\<close>

definition provision_host ::
  "'s task \<Rightarrow> 's provider \<Rightarrow> py_runtime \<Rightarrow> string \<Rightarrow> dict \<Rightarrow> dict \<Rightarrow> (dict, 's) cmd" where
  "provision_host T P E name app_config provider_config =
    (let cloud_config = dict_get provider_config ''cloud_config'' PNone;
         user_data = py_or (dict_get provider_config ''cloud_user_data'' PNone) (PStr [])
     in
     case dict_get app_config ''config_cloudlaunch'' (PDict []) of
       PDict cloudlaunch_config \<Rightarrow>
         (let custom_image_id = dict_get cloudlaunch_config ''customImageID'' PNone in
          bnd (if truthy custom_image_id then ret custom_image_id
               else pure_res (py_get cloud_config ''image_id'' PNone)) (\<lambda>image_ref.
          bnd (images_get (compute P) image_ref) (\<lambda>img.
          bnd (emit T ''PROGRESSING'' ''Retrieving or creating a key pair'') (\<lambda>_.
          bnd (get_or_create_kp P
                 (py_or (dict_get cloudlaunch_config ''keyPair'' PNone) (PStr ''cloudlaunch-key-pair''))) (\<lambda>kp.
          bnd (emit T ''PROGRESSING'' ''Applying firewall settings'') (\<lambda>_.
          bnd (resolve_launch_properties P E cloudlaunch_config) (\<lambda>(subnet, placement_zone, vmfl).
          bnd (get_cb_launch_config P E img cloudlaunch_config) (\<lambda>cb_launch_config.
          bnd (pure_res (py_get cloud_config ''default_instance_type'' PNone)) (\<lambda>default_type.
          (let vm_type = dict_get cloudlaunch_config ''vmType'' default_type in
          bnd (pure_res (build_user_data E provider_config user_data)) (\<lambda>user_data.
          bnd (emit T ''PROGRESSING''
                 (''Launching an instance of type '' @ str_py E vm_type @ '' with keypair ''
                   @ keypair_name kp @ '' in zone '' @ str_py E placement_zone)) (\<lambda>_.
          bnd (instances_create (compute P)
                 \<lparr>lr_label = name, lr_image = img, lr_vm_type = vm_type, lr_subnet = subnet,
                  lr_key_pair = kp, lr_vm_firewalls = vmfl, lr_zone = placement_zone,
                  lr_user_data = user_data, lr_launch_config = cb_launch_config\<rparr>) (\<lambda>inst.
          bnd (emit T ''PROGRESSING'' (''Waiting for instance '' @ inst_id inst)) (\<lambda>_.
          bnd (wait_till_ready (compute P) inst) (\<lambda>inst.
          (let static_ip = dict_get cloudlaunch_config ''staticIP'' PNone in
          bnd (if truthy static_ip then
                 bnd (emit T ''PROGRESSING''
                        (''Assigning requested floating IP: '' @ str_py E static_ip)) (\<lambda>_.
                 bnd (add_floating_ip (compute P) inst (FipAddress static_ip)) (\<lambda>_.
                   refresh (compute P) inst))
               else ret inst) (\<lambda>inst.
            assemble_results T P E kp vmfl inst subnet)))))))))))))))))
     | _ \<Rightarrow> throw (Exn AttributeError ''object has no attribute get''))"

section \<open>Post-provision configuration and deployment\<close>

text \<open>
  \<^verbatim>\<open>_configure_host(self, name, task, app_config, provider_config)\<close>.  \<open>attempt\<close> runs a
  call and hands its exception over as a value, for the \<^verbatim>\<open>except\<close> clauses that return.
  \<^verbatim>\<open>"{}".format(e)\<close> is the message of the exception.
\<close>

definition attempt :: "('a, 's) cmd \<Rightarrow> (error + 'a, 's) cmd" where
  "attempt m = (\<lambda>s. case m s of (r, s') \<Rightarrow> (Inr r, s'))"

definition configure_host ::
  "'s task \<Rightarrow> 's collaborators \<Rightarrow> string \<Rightarrow> dict \<Rightarrow> dict \<Rightarrow> (pyval, 's) cmd" where
  "configure_host T C name app_config provider_config =
    bnd (attempt (create_configurer C app_config)) (\<lambda>r.
      case r of
        Inl e \<Rightarrow>
          bnd (emit T ''ERROR'' (''Unable to create app configurer: '' @ exn_msg e)) (\<lambda>_.
            ret (PDict []))
      | Inr configurer \<Rightarrow>
          bnd (emit T ''PROGRESSING'' ''Validating provider connection info...'') (\<lambda>_.
          bnd (attempt (validate configurer app_config provider_config)) (\<lambda>r.
            case r of
              Inl e \<Rightarrow>
                bnd (emit T ''ERROR''
                       (''Validation of provider connection info failed: '' @ exn_msg e)) (\<lambda>_.
                  ret (PDict []))
            | Inr _ \<Rightarrow>
                bnd (emit T ''PROGRESSING'' ''Configuring application...'') (\<lambda>_.
                  try_except
                    (bnd (configure configurer app_config provider_config) (\<lambda>result.
                     bnd (emit T ''PROGRESSING''
                            ''Application configuration completed successfully.'') (\<lambda>_.
                       ret result)))
                    (\<lambda>e. bnd (emit T ''ERROR'' (''Configuration failed: '' @ exn_msg e)) (\<lambda>_.
                       ret (PDict [])))))))"

text \<open>\<^verbatim>\<open>{**x}\<close> needs a mapping.\<close>

fun py_mapping :: "pyval \<Rightarrow> error + dict" where
  "py_mapping (PDict d) = Inr d"
| "py_mapping v = Inl (Exn TypeError ''object is not a mapping'')"

text \<open>
  The value \<^verbatim>\<open>deploy\<close> returns:
  \<^verbatim>\<open>{'cloudLaunch': {**p_result.get('cloudLaunch', {}), **c_result.get('cloudLaunch', {})}}\<close>.
  Each operand is evaluated and unpacked before the next one is evaluated.
\<close>

definition merge_results :: "pyval \<Rightarrow> pyval \<Rightarrow> error + dict" where
  "merge_results p_result c_result =
    bind_res (py_get p_result ''cloudLaunch'' (PDict [])) (\<lambda>p_cl.
    bind_res (py_mapping p_cl) (\<lambda>p_map.
    bind_res (py_get c_result ''cloudLaunch'' (PDict [])) (\<lambda>c_cl.
    bind_res (py_mapping c_cl) (\<lambda>c_map.
      Inr [(''cloudLaunch'', PDict (dict_merge p_map c_map))]))))"

text \<open>
  \<^verbatim>\<open>deploy(self, name, task, app_config, provider_config)\<close>.  The assignments to
  \<^verbatim>\<open>provider_config\<close> change the caller's dictionary; here the changed dictionary is passed on.
\<close>

definition deploy ::
  "'s task \<Rightarrow> 's provider \<Rightarrow> py_runtime \<Rightarrow> 's collaborators \<Rightarrow> string \<Rightarrow> dict \<Rightarrow> dict \<Rightarrow> (dict, 's) cmd" where
  "deploy T P E C name app_config provider_config =
    bnd (if truthy (dict_get provider_config ''host_address'' PNone) then
           ret (PDict [], provider_config)
         else
           bnd (if truthy (dict_get app_config ''config_appliance'' PNone) then
                  bnd (generate_key_pair C) (\<lambda>(public_key, private_key).
                  (let pc1 = dict_set provider_config ''ssh_private_key'' (PStr private_key);
                       pc2 = dict_set pc1 ''ssh_public_key'' (PStr public_key) in
                  bnd (pure_res (py_get (dict_get app_config ''config_appliance'' (PDict []))
                                   ''sshUser'' PNone)) (\<lambda>ssh_user.
                  bnd (pure_res (py_get (dict_get app_config ''config_appliance'' (PDict []))
                                   ''runCmd'' PNone)) (\<lambda>run_cmd.
                    ret (dict_set (dict_set pc2 ''ssh_user'' ssh_user) ''run_cmd'' run_cmd)))))
                else ret provider_config) (\<lambda>pc.
           bnd (provision_host T P E name app_config pc) (\<lambda>p_result.
           bnd (pure_res (py_get (dict_get p_result ''cloudLaunch'' PNone) ''publicIP'' PNone)) (\<lambda>host.
             ret (PDict p_result, dict_set pc ''host_address'' host))))) (\<lambda>(p_result, pc).
    bnd (if truthy (dict_get app_config ''config_appliance'' PNone) then
           configure_host T C name app_config pc
         else ret (PDict [])) (\<lambda>c_result.
      pure_res (merge_results p_result c_result)))"

section \<open>Lifecycle: deleting a deployment\<close>

text \<open>\<^verbatim>\<open>_get_deployment_iid(self, deployment)\<close>: the deployment is a dictionary.\<close>

definition get_deployment_iid :: "dict \<Rightarrow> error + pyval" where
  "get_deployment_iid deployment =
    (if dict_get deployment ''launch_status'' PNone = PStr ''SUCCESS'' then
       bind_res (py_get (dict_get deployment ''launch_result'' (PDict [])) ''cloudLaunch'' (PDict []))
         (\<lambda>cl. bind_res (py_get cl ''instance'' (PDict []))
           (\<lambda>i. py_get i ''id'' PNone))
     else Inr PNone)"

text \<open>\<^verbatim>\<open>health_check(self, provider, deployment)\<close>\<close>

definition health_check :: "'s provider \<Rightarrow> dict \<Rightarrow> (dict, 's) cmd" where
  "health_check P deployment =
    bnd (pure_res (get_deployment_iid deployment)) (\<lambda>iid.
      if \<not> truthy iid then ret [(''instance_status'', PStr ''deployment_not_found'')]
      else
        bnd (instances_get (compute P) iid) (\<lambda>inst_opt.
          case inst_opt of
            Some inst \<Rightarrow> ret [(''instance_status'', PStr (inst_state inst))]
          | None \<Rightarrow> ret [(''instance_status'', PStr ''not_found'')]))"

text \<open>\<^verbatim>\<open>restart(self, provider, deployment)\<close>\<close>

definition restart :: "'s provider \<Rightarrow> dict \<Rightarrow> (bool, 's) cmd" where
  "restart P deployment =
    bnd (pure_res (get_deployment_iid deployment)) (\<lambda>iid.
      if \<not> truthy iid then ret False
      else
        bnd (instances_get (compute P) iid) (\<lambda>inst_opt.
          case inst_opt of
            Some inst \<Rightarrow> bnd (reboot (compute P) inst) (\<lambda>_. ret True)
          | None \<Rightarrow> ret False))"

text \<open>\<^verbatim>\<open>delete(self, provider, deployment)\<close>\<close>

definition delete :: "'s provider \<Rightarrow> dict \<Rightarrow> (bool, 's) cmd" where
  "delete P deployment =
    bnd (pure_res (get_deployment_iid deployment)) (\<lambda>iid.
      if \<not> truthy iid then ret False
      else
        bnd (instances_get (compute P) iid) (\<lambda>inst_opt.
          case inst_opt of
            Some inst \<Rightarrow>
              bnd (inst_delete (compute P) inst) (\<lambda>_.
              bnd (wait_for (compute P) inst [DELETED, UNKNOWN] [ERROR]) (\<lambda>_.
                ret True))
          | None \<Rightarrow> ret True))"

section \<open>A recording test provider\<close>

text \<open>
  A provider that answers from canned data and records every call in the world, which is
  the list of the calls made so far.  An operation named in \<open>c_fail\<close> raises.  It serves
  to run the plugin on concrete inputs.
\<close>

datatype call = Call string | RuleCreated vm_firewall rule_request | FipAttached string fip_ref | Launched launch_request

record canned =
  c_fail :: "string list"
  c_firewalls :: "vm_firewall list"
  c_subnets :: "subnet list"
  c_default_subnet :: "subnet option"
  c_routers :: "router list"
  c_fips :: "floating_ip list"
  c_instance :: vm_instance

definition answer :: "canned \<Rightarrow> string \<Rightarrow> call \<Rightarrow> 'a \<Rightarrow> ('a, call list) cmd" where
  "answer c opn entry result =
    (\<lambda>log. if opn \<in> set (c_fail c) then (Inl (Exn CloudError opn), log @ [Call opn])
           else (Inr result, log @ [entry]))"

definition test_security :: "canned \<Rightarrow> (call list) security_service" where
  "test_security c =
    \<lparr>key_pairs_find = (\<lambda>n. answer c ''key_pairs.find'' (Call ''key_pairs.find'') []),
     key_pairs_create = (\<lambda>n. answer c ''key_pairs.create'' (Call ''key_pairs.create'')
        \<lparr>keypair_id = ''kp-1'', keypair_name = ''cloudlaunch-key-pair'', keypair_material = PStr ''PRIVATE''\<rparr>),
     vm_firewalls_find = (\<lambda>l. answer c ''vm_firewalls.find'' (Call ''vm_firewalls.find'')
        (filter (\<lambda>f. PStr (fw_name f) = l) (c_firewalls c))),
     vm_firewalls_create = (\<lambda>l nid d. answer c ''vm_firewalls.create'' (Call ''vm_firewalls.create'')
        \<lparr>fw_id = ''fw-new'', fw_name = (case l of PStr s \<Rightarrow> s | _ \<Rightarrow> []), fw_network_id = nid\<rparr>),
     rules_create = (\<lambda>vmf rq. answer c ''rules.create'' (RuleCreated vmf rq) ())\<rparr>"

definition test_networking :: "canned \<Rightarrow> (call list) networking_service" where
  "test_networking c =
    \<lparr>networks_get = (\<lambda>n. answer c ''networks.get'' (Call ''networks.get'')
        (case n of PStr s \<Rightarrow> Some \<lparr>nw_id = s\<rparr> | _ \<Rightarrow> None)),
     network_subnets = (\<lambda>n. answer c ''network.subnets'' (Call ''network.subnets'')
        (filter (\<lambda>sn. sn_network_id sn = Some (nw_id n)) (c_subnets c))),
     subnets_get = (\<lambda>i. answer c ''subnets.get'' (Call ''subnets.get'')
        (List.find (\<lambda>sn. PStr (sn_id sn) = i) (c_subnets c))),
     subnets_get_or_create_default = (\<lambda>z. answer c ''subnets.get_or_create_default''
        (Call ''subnets.get_or_create_default'') (c_default_subnet c)),
     subnet_network = (\<lambda>sn. answer c ''subnet.network'' (Call ''subnet.network'')
        (map_option (\<lambda>s. \<lparr>nw_id = s\<rparr>) (sn_network_id sn))),
     subnet_network_name = (\<lambda>sn. answer c ''subnet._network.name'' (Call ''subnet._network.name'') ''net''),
     routers_list = answer c ''routers.list'' (Call ''routers.list'') (c_routers c),
     routers_create = (\<lambda>l n. answer c ''routers.create'' (Call ''routers.create'')
        \<lparr>rtr_id = ''rtr-new'', rtr_network_id = n\<rparr>),
     router_subnets = (\<lambda>r. answer c ''router.subnets'' (Call ''router.subnets'') []),
     attach_gateway = (\<lambda>r g. answer c ''router.attach_gateway'' (Call ''router.attach_gateway'') ()),
     attach_subnet = (\<lambda>r sn. answer c ''router.attach_subnet'' (Call ''router.attach_subnet'') ()),
     get_or_create_inet_gateway = (\<lambda>n. answer c ''gateways.get_or_create_inet_gateway''
        (Call ''gateways.get_or_create_inet_gateway'') \<lparr>gw_id = ''gw-1''\<rparr>),
     gateway_floating_ips = (\<lambda>g. answer c ''floating_ips.list'' (Call ''floating_ips.list'') (c_fips c)),
     floating_ips_create = (\<lambda>g. answer c ''floating_ips.create'' (Call ''floating_ips.create'')
        \<lparr>fip_id = ''fip-new'', public_ip = ''203.0.113.9'', in_use = False\<rparr>)\<rparr>"

definition test_compute :: "canned \<Rightarrow> (call list) compute_service" where
  "test_compute c =
    \<lparr>images_get = (\<lambda>i. answer c ''images.get'' (Call ''images.get'') (Some \<lparr>img_id = ''img-1''\<rparr>)),
     create_launch_config = answer c ''create_launch_config'' (Call ''create_launch_config'') (LaunchConfig []),
     add_volume_device = (\<lambda>lc i sz r. answer c ''add_volume_device'' (Call ''add_volume_device'')
        (case lc of LaunchConfig ds \<Rightarrow> LaunchConfig (ds @ [\<lparr>vd_source = i, vd_size = sz, vd_is_root = r\<rparr>]))),
     instances_create = (\<lambda>rq. answer c ''instances.create'' (Launched rq) (c_instance c)),
     instances_get = (\<lambda>i. answer c ''instances.get'' (Call ''instances.get'')
        (if i = PStr (inst_id (c_instance c)) then Some (c_instance c) else None)),
     wait_till_ready = (\<lambda>i. answer c ''wait_till_ready'' (Call ''wait_till_ready'') i),
     add_floating_ip = (\<lambda>i f. answer c ''add_floating_ip'' (FipAttached (inst_id i) f) ()),
     refresh = (\<lambda>i. answer c ''refresh'' (Call ''refresh'') i),
     reboot = (\<lambda>i. answer c ''reboot'' (Call ''reboot'') ()),
     inst_delete = (\<lambda>i. answer c ''delete'' (Call ''delete'') ()),
     wait_for = (\<lambda>i a b. answer c ''wait_for'' (Call ''wait_for'') ())\<rparr>"

definition test_provider :: "canned \<Rightarrow> (call list) provider" where
  "test_provider c = \<lparr>security = test_security c, networking = test_networking c, compute = test_compute c\<rparr>"

definition test_runtime :: py_runtime where
  "test_runtime =
    \<lparr>int_py = (\<lambda>v. case v of
         PInt n \<Rightarrow> Inr n
       | PStr s \<Rightarrow> (case map_of [(''22'', 22), (''80'', 80), (''1'', 1), (''65535'', 65535)] s of
                     Some n \<Rightarrow> Inr n | None \<Rightarrow> Inl (Exn ValueError ''invalid literal for int()''))
       | _ \<Rightarrow> Inl (Exn TypeError ''int() argument must be a string or a number'')),
     str_py = (\<lambda>v. case v of PStr s \<Rightarrow> s | PNone \<Rightarrow> ''None'' | _ \<Rightarrow> ''...''),
     ip_is_global = (\<lambda>a. case map_of [(''8.8.8.8'', True), (''10.0.0.5'', False)] a of
         Some g \<Rightarrow> Inr g | None \<Rightarrow> Inl (Exn ValueError ''does not appear to be an IPv4 or IPv6 address''))\<rparr>"

definition empty_cloud :: canned where
  "empty_cloud =
    \<lparr>c_fail = [], c_firewalls = [], c_subnets = [], c_default_subnet = None, c_routers = [], c_fips = [],
     c_instance = \<lparr>inst_id = ''i-1'', inst_state = ''running'', public_ips = [], private_ips = [''10.0.0.5'']\<rparr>\<rparr>"

text \<open>Two firewall groups in the documented format.\<close>

definition myapp_group :: pyval where
  "myapp_group = PDict
     [(''rules'', PList
        [PDict [(''from'', PStr ''22''), (''to'', PStr ''22''), (''cidr'', PStr ''0.0.0.0/0''),
                (''protocol'', PStr ''tcp'')]]),
      (''securityGroup'', PStr ''MyApp''), (''description'', PStr ''My App SG'')]"

definition other_group :: pyval where
  "other_group = PDict
     [(''rules'', PList
        [PDict [(''from'', PStr ''80''), (''to'', PStr ''80''), (''cidr'', PStr ''0.0.0.0/0''),
                (''protocol'', PStr ''tcp'')]]),
      (''securityGroup'', PStr ''Web''), (''description'', PStr ''Web SG'')]"

text \<open>
  The docstring's rule that names another security group by its id, in the group
  \<^verbatim>\<open>MyApp\<close>; and a cloud that has both security groups.
\<close>

definition src_group_spec :: pyval where
  "src_group_spec = PList [PDict
     [(''rules'', PList
        [PDict [(''src_group'', PStr ''bd9756b8-e9ab-41b1-8a1b-e466a04a997c''),
                (''from'', PStr ''22''), (''to'', PStr ''22''), (''protocol'', PStr ''tcp'')]]),
      (''securityGroup'', PStr ''MyApp''), (''description'', PStr ''My App SG'')]]"

definition myapp_fw :: vm_firewall where
  "myapp_fw = \<lparr>fw_id = ''sg-myapp'', fw_name = ''MyApp'', fw_network_id = None\<rparr>"

definition other_fw :: vm_firewall where
  "other_fw = \<lparr>fw_id = ''bd9756b8-e9ab-41b1-8a1b-e466a04a997c'', fw_name = ''Other'', fw_network_id = None\<rparr>"

definition two_firewall_cloud :: canned where
  "two_firewall_cloud = empty_cloud\<lparr>c_firewalls := [myapp_fw, other_fw]\<rparr>"

text \<open>A network \<^verbatim>\<open>net-1\<close> with two subnets, and a default subnet on another network.\<close>

definition subnet_a :: subnet where
  "subnet_a = \<lparr>sn_id = ''sn-a'', sn_network_id = Some ''net-1'', sn_zone = ''zone-1''\<rparr>"

definition subnet_b :: subnet where
  "subnet_b = \<lparr>sn_id = ''sn-b'', sn_network_id = Some ''net-1'', sn_zone = ''zone-2''\<rparr>"

definition default_subnet :: subnet where
  "default_subnet = \<lparr>sn_id = ''sn-default'', sn_network_id = Some ''net-default'', sn_zone = ''zone-1''\<rparr>"

definition network_cloud :: canned where
  "network_cloud = empty_cloud\<lparr>c_subnets := [subnet_a, subnet_b], c_default_subnet := Some default_subnet\<rparr>"

definition bare_network_cloud :: canned where
  "bare_network_cloud = empty_cloud\<lparr>c_default_subnet := Some default_subnet\<rparr>"

text \<open>The same cloud with one operation that raises.\<close>

definition failing_cloud :: "string \<Rightarrow> canned" where
  "failing_cloud opn = network_cloud\<lparr>c_fail := [opn]\<rparr>"

text \<open>A progress sink and collaborators that record their calls; two requests.\<close>

definition test_task :: "(call list) task" where
  "test_task = \<lparr>update_state = (\<lambda>st action log. log @ [Call (st @ '': '' @ action)])\<rparr>"

definition test_configurer :: "canned \<Rightarrow> (call list) configurer" where
  "test_configurer c =
    \<lparr>validate = (\<lambda>app_config provider_config. answer c ''validate'' (Call ''validate'') ()),
     configure = (\<lambda>app_config provider_config. answer c ''configure'' (Call ''configure'')
        (PDict [(''cloudLaunch'', PDict [(''applicationURL'', PStr ''http://203.0.113.9/'')])]))\<rparr>"

definition test_collaborators :: "canned \<Rightarrow> (call list) collaborators" where
  "test_collaborators c =
    \<lparr>generate_key_pair = answer c ''generate_key_pair'' (Call ''generate_key_pair'') (''ssh-rsa PUBLIC'', ''PRIVATE''),
     create_configurer = (\<lambda>app_config. answer c ''create_configurer'' (Call ''create_configurer'')
        (test_configurer c))\<rparr>"

definition plain_app_config :: dict where
  "plain_app_config =
     [(''config_cloudlaunch'', PDict [(''network'', PNone), (''subnet'', PNone), (''placementZone'', PStr [])])]"

definition test_provider_config :: dict where
  "test_provider_config =
     [(''cloud_config'', PDict [(''image_id'', PStr ''img-1''), (''default_instance_type'', PStr ''m1.small'')])]"

definition fw_app_config :: dict where
  "fw_app_config =
     [(''config_cloudlaunch'', PDict [(''firewall'', PList [myapp_group])]),
      (''config_appliance'', PDict [(''sshUser'', PStr ''ubuntu''), (''runCmd'', PList [PStr ''apt update''])])]"

text \<open>
  Collaborators whose configurer succeeds and returns a \<^verbatim>\<open>cloudLaunch\<close> entry that has a key
  of the provisioning result (\<^verbatim>\<open>publicIP\<close>) and a key of its own.
\<close>

definition overriding_configurer :: "(call list) configurer" where
  "overriding_configurer =
    \<lparr>validate = (\<lambda>app_config provider_config. answer empty_cloud ''validate'' (Call ''validate'') ()),
     configure = (\<lambda>app_config provider_config. answer empty_cloud ''configure'' (Call ''configure'')
        (PDict [(''cloudLaunch'', PDict [(''publicIP'', PStr ''app.example.org''),
                                         (''applicationURL'', PStr ''http://app.example.org/'')])]))\<rparr>"

definition overriding_collaborators :: "(call list) collaborators" where
  "overriding_collaborators =
    \<lparr>generate_key_pair = answer empty_cloud ''generate_key_pair'' (Call ''generate_key_pair'')
                            (''ssh-rsa PUBLIC'', ''PRIVATE''),
     create_configurer = (\<lambda>app_config. answer empty_cloud ''create_configurer'' (Call ''create_configurer'')
                            overriding_configurer)\<rparr>"

section \<open>Laws of the effect combinators\<close>

lemma ret_apply: "ret x s = (Inr x, s)"
  by (simp add: ret_def)

lemma throw_apply: "throw e s = (Inl e, s)"
  by (simp add: throw_def)

lemma pure_res_apply: "pure_res r s = (r, s)"
  by (simp add: pure_res_def)

lemma bnd_Inr: "m s = (Inr x, s') \<Longrightarrow> bnd m f s = f x s'"
  by (simp add: bnd_def)

lemma bnd_Inl: "m s = (Inl e, s') \<Longrightarrow> bnd m f s = (Inl e, s')"
  by (simp add: bnd_def)

lemma bnd_ret: "bnd (ret x) f = f x"
  by (simp add: bnd_def ret_def)

lemma bnd_throw: "bnd (throw e) f = throw e"
  by (simp add: bnd_def throw_def)

lemma bnd_pure_Inr: "bnd (pure_res (Inr x)) f = f x"
  by (simp add: bnd_def pure_res_def)

lemma bnd_pure_Inl: "bnd (pure_res (Inl e)) f = throw e"
  by (simp add: bnd_def pure_res_def throw_def)

lemma bnd_apply:
  "bnd m f s = (case m s of (Inl e, s') \<Rightarrow> (Inl e, s') | (Inr x, s') \<Rightarrow> f x s')"
  by (simp add: bnd_def)

lemma try_except_apply:
  "try_except m h s = (case m s of (Inl e, s') \<Rightarrow> h e s' | (Inr x, s') \<Rightarrow> (Inr x, s'))"
  by (simp add: try_except_def)

lemma try_except_swallow: "\<exists>y s'. try_except m (\<lambda>e. ret x) s = (Inr y, s')"
  by (cases "m s") (auto simp: try_except_def ret_def split: sum.splits)

lemma bnd_isl:
  "(\<And>x s'. m s = (Inr x, s') \<Longrightarrow> isl (fst (f x s'))) \<Longrightarrow> isl (fst (bnd m f s))"
  by (cases "m s") (auto simp: bnd_def split: sum.splits)

lemma bnd_InrE:
  assumes "bnd m f s = (Inr r, s')"
  obtains x s1 where "m s = (Inr x, s1)" and "f x s1 = (Inr r, s')"
  using assms by (cases "m s") (auto simp: bnd_def split: sum.splits)

lemmas monad_simps = ret_apply throw_apply pure_res_apply bnd_ret bnd_throw bnd_pure_Inr bnd_pure_Inl

lemmas test_defs = test_provider_def test_networking_def test_compute_def test_security_def
  test_runtime_def empty_cloud_def answer_def

lemmas model_defs = provision_host_def resolve_launch_properties_def setup_networking_def
  get_or_create_default_subnet_def connect_subnet_def get_or_create_kp_def get_cb_launch_config_def
  build_user_data_def attach_public_ip_def emit_def configure_vm_firewalls_def get_or_create_vmf_def
  rule_request_of_def assemble_results_def

lemmas run_defs = test_defs test_task_def bnd_apply try_except_apply monad_simps bind_res_def dict_get_def
  py_or_def opt_str_def Let_def

section \<open>Firewall resolution: results\<close>

lemma apply_rules_returns: "fst (apply_rules P E vmf rules s) = Inr ()"
proof (induction rules arbitrary: s)
  case Nil
  then show ?case by (simp add: ret_def)
next
  case (Cons rule rules)
  have "\<exists>y s'. try_except (bnd (pure_res (rule_request_of E vmf rule)) (rules_create (security P) vmf))
       (\<lambda>e. ret ()) s = (Inr y, s')"
    by (rule try_except_swallow)
  then obtain y s' where
    "try_except (bnd (pure_res (rule_request_of E vmf rule)) (rules_create (security P) vmf))
       (\<lambda>e. ret ()) s = (Inr y, s')"
    by blast
  with Cons.IH [of s'] show ?case by (simp add: bnd_Inr)
qed

text \<open>
  Claim C1.  On a firewall specification with two or more groups, \<^verbatim>\<open>configure_vm_firewalls\<close>
  does exactly what it does on the first group alone, result and world: no rule of a later
  group is applied, and no later group is resolved.  When the first group (a dictionary) is
  resolved to the firewall \<open>vmf\<close>, the call returns the list \<open>[vmf]\<close>, in the world
  reached by applying that group's rules.
\<close>

theorem configure_vm_firewalls_first_group_only:
  "configure_vm_firewalls P E subnet (PList (g # g' # gs)) s
     = configure_vm_firewalls P E subnet (PList [g]) s
   \<and> (g = PDict grp
        \<and> get_or_create_vmf P subnet (py_or (dict_get grp ''securityGroup'' PNone) (PStr ''cloudlaunch''))
             (py_or (dict_get grp ''description'' PNone) (PStr ''Created by CloudLaunch'')) s = (Inr vmf, s1)
        \<and> py_iter (dict_get grp ''rules'' (PList [])) = Inr rules \<longrightarrow>
      configure_vm_firewalls P E subnet (PList (g # g' # gs)) s
        = (Inr (Some [vmf]), snd (apply_rules P E vmf rules s1)))"
proof (intro conjI impI)
  show "configure_vm_firewalls P E subnet (PList (g # g' # gs)) s
          = configure_vm_firewalls P E subnet (PList [g]) s"
    by (simp add: configure_vm_firewalls_def monad_simps)
next
  assume a: "g = PDict grp
        \<and> get_or_create_vmf P subnet (py_or (dict_get grp ''securityGroup'' PNone) (PStr ''cloudlaunch''))
             (py_or (dict_get grp ''description'' PNone) (PStr ''Created by CloudLaunch'')) s = (Inr vmf, s1)
        \<and> py_iter (dict_get grp ''rules'' (PList [])) = Inr rules"
  obtain s2 where r: "apply_rules P E vmf rules s1 = (Inr (), s2)"
    using apply_rules_returns [of P E vmf rules s1] by (cases "apply_rules P E vmf rules s1") auto
  from a r show "configure_vm_firewalls P E subnet (PList (g # g' # gs)) s
        = (Inr (Some [vmf]), snd (apply_rules P E vmf rules s1))"
    by (simp add: configure_vm_firewalls_def monad_simps bnd_Inr)
qed

theorem configure_vm_firewalls_first_group_only_witness:
  "configure_vm_firewalls (test_provider empty_cloud) test_runtime None
     (PList [myapp_group, other_group]) []
   = (Inr (Some [\<lparr>fw_id = ''fw-new'', fw_name = ''MyApp'', fw_network_id = None\<rparr>]),
      [Call ''vm_firewalls.find'', Call ''vm_firewalls.create'',
       RuleCreated \<lparr>fw_id = ''fw-new'', fw_name = ''MyApp'', fw_network_id = None\<rparr>
         \<lparr>rr_direction = INBOUND, rr_protocol = PStr ''tcp'', rr_from_port = 22, rr_to_port = 22,
          rr_source = SrcCidr (PStr ''0.0.0.0/0'')\<rparr>])"
proof -
  let ?vmf = "\<lparr>fw_id = ''fw-new'', fw_name = ''MyApp'', fw_network_id = None\<rparr>"
  let ?grp = "[(''rules'', PList
        [PDict [(''from'', PStr ''22''), (''to'', PStr ''22''), (''cidr'', PStr ''0.0.0.0/0''),
                (''protocol'', PStr ''tcp'')]]),
      (''securityGroup'', PStr ''MyApp''), (''description'', PStr ''My App SG'')]"
  let ?rules = "[PDict [(''from'', PStr ''22''), (''to'', PStr ''22''), (''cidr'', PStr ''0.0.0.0/0''),
                (''protocol'', PStr ''tcp'')]]"
  let ?s1 = "[Call ''vm_firewalls.find'', Call ''vm_firewalls.create'']"
  have a: "get_or_create_vmf (test_provider empty_cloud) None
             (py_or (dict_get ?grp ''securityGroup'' PNone) (PStr ''cloudlaunch''))
             (py_or (dict_get ?grp ''description'' PNone) (PStr ''Created by CloudLaunch'')) [] = (Inr ?vmf, ?s1)"
    by (simp add: get_or_create_vmf_def test_defs dict_get_def py_or_def bnd_apply)
  have b: "py_iter (dict_get ?grp ''rules'' (PList [])) = Inr ?rules"
    by (simp add: dict_get_def)
  have c: "snd (apply_rules (test_provider empty_cloud) test_runtime ?vmf ?rules ?s1)
             = ?s1 @ [RuleCreated ?vmf \<lparr>rr_direction = INBOUND, rr_protocol = PStr ''tcp'', rr_from_port = 22,
                        rr_to_port = 22, rr_source = SrcCidr (PStr ''0.0.0.0/0'')\<rparr>]"
    by (simp add: rule_request_of_def bind_res_def dict_get_def test_defs bnd_apply try_except_apply
          monad_simps)
  have "configure_vm_firewalls (test_provider empty_cloud) test_runtime None
          (PList (PDict ?grp # other_group # [])) []
        = (Inr (Some [?vmf]), snd (apply_rules (test_provider empty_cloud) test_runtime ?vmf ?rules ?s1))"
    using configure_vm_firewalls_first_group_only
         [of "test_provider empty_cloud" test_runtime None "PDict ?grp" other_group "[]" "[]" ?grp ?vmf ?s1 ?rules]
       a b
    by blast
  then show ?thesis
    unfolding c myapp_group_def by simp
qed

lemma rule_request_source:
  "rule_request_of E vmf rule = Inr rq \<Longrightarrow> rr_source rq = SrcFirewall vmf \<or> (\<exists>c. rr_source rq = SrcCidr c)"
  by (auto simp: rule_request_of_def bind_res_def split: sum.splits if_splits)

text \<open>
  Claim C2, a defect of the code.  For a rule with a \<^verbatim>\<open>src_group\<close> the code passes
  \<^verbatim>\<open>src_dest_fw=vmf\<close>, the group being configured, whatever the value of \<^verbatim>\<open>src_group\<close>
  (\<open>rule_request_source\<close>).  The docstring allows the id of a different security group.  On
  the docstring's own example of such a rule, in group \<^verbatim>\<open>MyApp\<close>, the rule created has
  \<^verbatim>\<open>MyApp\<close> itself as its source, not the group with the given id.
\<close>

theorem configure_vm_firewalls_src_group_is_self:
  "configure_vm_firewalls (test_provider two_firewall_cloud) test_runtime None src_group_spec []
   = (Inr (Some [myapp_fw]),
      [Call ''vm_firewalls.find'',
       RuleCreated myapp_fw
         \<lparr>rr_direction = INBOUND, rr_protocol = PStr ''tcp'', rr_from_port = 22, rr_to_port = 22,
          rr_source = SrcFirewall myapp_fw\<rparr>])"
  by (simp add: configure_vm_firewalls_def src_group_spec_def two_firewall_cloud_def get_or_create_vmf_def
        rule_request_of_def bind_res_def dict_get_def py_or_def test_defs bnd_apply try_except_apply
        monad_simps myapp_fw_def other_fw_def)

section \<open>Provisioning: results\<close>

lemma resolve_without_firewall:
  "resolve_launch_properties P E cloudlaunch_config s = (Inr (subnet, placement, vmfl), s') \<Longrightarrow>
   \<not> truthy (dict_get cloudlaunch_config ''firewall'' PNone) \<Longrightarrow>
   vmfl = None"
  by (auto simp: resolve_launch_properties_def Let_def bnd_apply ret_apply split: sum.splits prod.splits)

lemma assemble_results_none:
  "assemble_results T P E kp None inst subnet s
     = (Inl (Exn TypeError ''NoneType object is not subscriptable''), s)"
  by (simp add: assemble_results_def throw_apply)

lemma provision_host_needs_firewall:
  assumes "dict_get app_config ''config_cloudlaunch'' (PDict []) = PDict cloudlaunch_config"
      and "\<not> truthy (dict_get cloudlaunch_config ''firewall'' PNone)"
  shows "isl (fst (provision_host T P E name app_config provider_config s))"
  using assms
  by (auto simp: provision_host_def Let_def assemble_results_none
           intro!: bnd_isl dest: resolve_without_firewall)

text \<open>
  Claim C3, a defect of the code.  With no firewall specification
  \<^verbatim>\<open>resolve_launch_properties\<close> returns \<^verbatim>\<open>None\<close> for the firewall list, and the statement
  \<^verbatim>\<open>results['securityGroup'] = {'id': vmfl[0].id, ...}\<close> subscripts it: the result assembly
  raises \<^verbatim>\<open>TypeError\<close> for every provider (first part; \<open>provision_host_needs_firewall\<close>
  shows that \<^verbatim>\<open>_provision_host\<close> then never returns a result).  On the request of the claim
  (\<^verbatim>\<open>network=None, subnet=None, placementZone=""\<close>, no firewall) the default subnet is
  resolved and the instance is created, with \<^verbatim>\<open>vm_firewalls=None\<close>, and then the call raises
  instead of returning a result.
\<close>

theorem provision_host_without_firewall_faults:
  "assemble_results T P E kp None inst subnet s
     = (Inl (Exn TypeError ''NoneType object is not subscriptable''), s)
   \<and> provision_host test_task (test_provider network_cloud) test_runtime ''vm'' plain_app_config
     test_provider_config []
   = (Inl (Exn TypeError ''NoneType object is not subscriptable''),
      [Call ''images.get'',
       Call ''PROGRESSING: Retrieving or creating a key pair'',
       Call ''key_pairs.find'', Call ''key_pairs.create'',
       Call ''PROGRESSING: Applying firewall settings'',
       Call ''subnets.get_or_create_default'', Call ''routers.list'',
       Call ''subnet._network.name'', Call ''routers.create'',
       Call ''networks.get'', Call ''gateways.get_or_create_inet_gateway'',
       Call ''router.attach_gateway'', Call ''subnet.network'',
       Call ''network.subnets'',
       Call ''PROGRESSING: Launching an instance of type m1.small with keypair cloudlaunch-key-pair in zone '',
       Launched
        \<lparr>lr_label = ''vm'', lr_image = Some \<lparr>img_id = ''img-1''\<rparr>,
           lr_vm_type = PStr ''m1.small'', lr_subnet = Some default_subnet,
           lr_key_pair = \<lparr>keypair_id = ''kp-1'', keypair_name = ''cloudlaunch-key-pair'',
                          keypair_material = PStr ''PRIVATE''\<rparr>,
           lr_vm_firewalls = None, lr_zone = PStr [], lr_user_data = PStr [],
           lr_launch_config = None\<rparr>,
       Call ''PROGRESSING: Waiting for instance i-1'',
       Call ''wait_till_ready''])"
  by (simp add: model_defs run_defs plain_app_config_def test_provider_config_def network_cloud_def
        default_subnet_def subnet_a_def subnet_b_def)

lemma assemble_results_shape:
  assumes "assemble_results T P E kp vmfl inst subnet s = (Inr p_result, s')"
  shows "\<exists>results ip. p_result = [(''cloudLaunch'', PDict results)]
           \<and> dict_get results ''publicIP'' PNone = PStr ip"
proof -
  from assms obtain a b c ip where
    "p_result = [(''cloudLaunch'', PDict [(''keyPair'', a), (''securityGroup'', b), (''instance'', c),
                                          (''publicIP'', PStr ip)])]"
    by (auto simp: assemble_results_def Let_def throw_apply ret_apply emit_def
             split: option.splits list.splits elim!: bnd_InrE)
  then show ?thesis
    by (simp add: dict_get_def)
qed

lemma provision_host_shape:
  assumes "provision_host T P E name app_config provider_config s = (Inr p_result, s')"
  shows "\<exists>results ip. p_result = [(''cloudLaunch'', PDict results)]
           \<and> dict_get results ''publicIP'' PNone = PStr ip"
  using assms
  by (auto simp: provision_host_def Let_def throw_apply split: pyval.splits
           elim!: bnd_InrE dest: assemble_results_shape)

section \<open>Deleting a deployment: results\<close>

text \<open>
  Claim C4, as amended.  When no instance id can be derived from the deployment record (the
  launch status is not \<^verbatim>\<open>SUCCESS\<close>, or \<^verbatim>\<open>_get_deployment_iid\<close> yields a value that is not
  truthy), \<^verbatim>\<open>delete\<close> returns \<^verbatim>\<open>False\<close> and leaves the world as it was, whatever the
  provider: no provider operation runs.  The guard \<^verbatim>\<open>if not iid: return False\<close> decides it.
\<close>

theorem delete_without_instance_id:
  "(dict_get deployment ''launch_status'' PNone \<noteq> PStr ''SUCCESS'' \<longrightarrow>
      delete P deployment s = (Inr False, s))
   \<and> (\<forall>iid. get_deployment_iid deployment = Inr iid \<and> \<not> truthy iid \<longrightarrow>
      delete P deployment s = (Inr False, s))"
  by (auto simp: delete_def get_deployment_iid_def monad_simps)

text \<open>
  The claim as first stated has \<^verbatim>\<open>delete\<close> return the success value \<^verbatim>\<open>True\<close> there.  On a
  deployment whose launch status is \<^verbatim>\<open>PENDING\<close> it returns \<^verbatim>\<open>False\<close>.
\<close>

theorem delete_without_instance_id_counterexample:
  "delete (test_provider empty_cloud) [(''launch_status'', PStr ''PENDING'')] [] = (Inr False, [])
   \<and> fst (delete (test_provider empty_cloud) [(''launch_status'', PStr ''PENDING'')] []) \<noteq> Inr True"
  by (simp add: delete_def get_deployment_iid_def monad_simps dict_get_def)

theorem delete_without_instance_id_witness:
  "delete (test_provider empty_cloud) [(''launch_status'', PStr ''ERROR'')] [] = (Inr False, [])
   \<and> delete (test_provider empty_cloud)
        [(''launch_status'', PStr ''SUCCESS''), (''launch_result'', PDict [(''cloudLaunch'', PDict [])])] []
      = (Inr False, [])"
proof -
  let ?d1 = "[(''launch_status'', PStr ''ERROR'')]"
  let ?d2 = "[(''launch_status'', PStr ''SUCCESS''), (''launch_result'', PDict [(''cloudLaunch'', PDict [])])]"
  have a: "dict_get ?d1 ''launch_status'' PNone \<noteq> PStr ''SUCCESS''" by (simp add: dict_get_def)
  have b: "get_deployment_iid ?d2 = Inr PNone \<and> \<not> truthy PNone"
    by (simp add: get_deployment_iid_def dict_get_def bind_res_def)
  from delete_without_instance_id [of ?d1 "test_provider empty_cloud" "[]"] a
       delete_without_instance_id [of ?d2 "test_provider empty_cloud" "[]"] b
  show ?thesis by blast
qed

section \<open>Public address resolution: results\<close>

text \<open>
  Claim C5.  \<^verbatim>\<open>attach_public_ip\<close> returns a non-empty address, by the first of four branches
  that applies: (1) the instance's first public address when it is not empty, with no call to
  the provider; (2) else the first private address when \<^verbatim>\<open>ipaddress\<close> reports it global,
  again with no call; (3) else the address of the first floating IP of the network's gateway
  that is not in use, after attaching it to the instance; (4) else, when every floating IP is
  in use, the address of a newly created floating IP, after attaching it.  Branches (3) and
  (4) suppose that the provider's calls succeed and that the floating IP carries an address;
  branch (2) uses that the empty string is not a global address.
\<close>

theorem attach_public_ip_fallback:
  assumes "ip_is_global E [] \<noteq> Inr True"
  shows "(public_ips inst = p # ps \<and> p \<noteq> [] \<longrightarrow>
            attach_public_ip P E inst network_id s = (Inr p, s))
       \<and> ((public_ips inst = [] \<or> hd (public_ips inst) = []) \<and> private_ips inst = q # qs
            \<and> ip_is_global E q = Inr True \<longrightarrow>
            attach_public_ip P E inst network_id s = (Inr q, s) \<and> q \<noteq> [])
       \<and> ((public_ips inst = [] \<or> hd (public_ips inst) = []) \<and> private_ips inst = q # qs
            \<and> ip_is_global E q = Inr False
            \<and> networks_get (networking P) network_id s = (Inr (Some net), s1)
            \<and> get_or_create_inet_gateway (networking P) net s1 = (Inr gw, s2)
            \<and> gateway_floating_ips (networking P) gw s2 = (Inr ips, s3)
            \<and> List.find (\<lambda>ip. \<not> in_use ip) ips = Some fip \<and> public_ip fip \<noteq> []
            \<and> add_floating_ip (compute P) inst (FipObject fip) s3 = (Inr (), s4) \<longrightarrow>
            attach_public_ip P E inst network_id s = (Inr (public_ip fip), s4))
       \<and> ((public_ips inst = [] \<or> hd (public_ips inst) = []) \<and> private_ips inst = q # qs
            \<and> ip_is_global E q = Inr False
            \<and> networks_get (networking P) network_id s = (Inr (Some net), s1)
            \<and> get_or_create_inet_gateway (networking P) net s1 = (Inr gw, s2)
            \<and> gateway_floating_ips (networking P) gw s2 = (Inr ips, s3)
            \<and> List.find (\<lambda>ip. \<not> in_use ip) ips = None
            \<and> floating_ips_create (networking P) gw s3 = (Inr new_fip, s5) \<and> public_ip new_fip \<noteq> []
            \<and> add_floating_ip (compute P) inst (FipObject new_fip) s5 = (Inr (), s6) \<longrightarrow>
            attach_public_ip P E inst network_id s = (Inr (public_ip new_fip), s6))"
proof (intro conjI impI)
  assume "public_ips inst = p # ps \<and> p \<noteq> []"
  then show "attach_public_ip P E inst network_id s = (Inr p, s)"
    by (simp add: attach_public_ip_def monad_simps)
next
  assume a: "(public_ips inst = [] \<or> hd (public_ips inst) = []) \<and> private_ips inst = q # qs
            \<and> ip_is_global E q = Inr True"
  then show "attach_public_ip P E inst network_id s = (Inr q, s)"
    by (auto simp: attach_public_ip_def monad_simps)
  from a assms show "q \<noteq> []" by auto
next
  assume a: "(public_ips inst = [] \<or> hd (public_ips inst) = []) \<and> private_ips inst = q # qs
            \<and> ip_is_global E q = Inr False
            \<and> networks_get (networking P) network_id s = (Inr (Some net), s1)
            \<and> get_or_create_inet_gateway (networking P) net s1 = (Inr gw, s2)
            \<and> gateway_floating_ips (networking P) gw s2 = (Inr ips, s3)
            \<and> List.find (\<lambda>ip. \<not> in_use ip) ips = Some fip \<and> public_ip fip \<noteq> []
            \<and> add_floating_ip (compute P) inst (FipObject fip) s3 = (Inr (), s4)"
  then show "attach_public_ip P E inst network_id s = (Inr (public_ip fip), s4)"
    by (auto simp: attach_public_ip_def monad_simps bnd_Inr)
next
  assume a: "(public_ips inst = [] \<or> hd (public_ips inst) = []) \<and> private_ips inst = q # qs
            \<and> ip_is_global E q = Inr False
            \<and> networks_get (networking P) network_id s = (Inr (Some net), s1)
            \<and> get_or_create_inet_gateway (networking P) net s1 = (Inr gw, s2)
            \<and> gateway_floating_ips (networking P) gw s2 = (Inr ips, s3)
            \<and> List.find (\<lambda>ip. \<not> in_use ip) ips = None
            \<and> floating_ips_create (networking P) gw s3 = (Inr new_fip, s5) \<and> public_ip new_fip \<noteq> []
            \<and> add_floating_ip (compute P) inst (FipObject new_fip) s5 = (Inr (), s6)"
  then show "attach_public_ip P E inst network_id s = (Inr (public_ip new_fip), s6)"
    by (auto simp: attach_public_ip_def monad_simps bnd_Inr)
qed

theorem attach_public_ip_fallback_witness:
  "attach_public_ip (test_provider empty_cloud) test_runtime
     \<lparr>inst_id = ''i-1'', inst_state = ''running'', public_ips = [''198.51.100.7''], private_ips = [''8.8.8.8'']\<rparr>
     (PStr ''net-1'') [] = (Inr ''198.51.100.7'', [])
   \<and> attach_public_ip (test_provider empty_cloud) test_runtime
     \<lparr>inst_id = ''i-1'', inst_state = ''running'', public_ips = [], private_ips = [''8.8.8.8'']\<rparr>
     (PStr ''net-1'') [] = (Inr ''8.8.8.8'', [])
   \<and> attach_public_ip
     (test_provider (empty_cloud\<lparr>c_fips :=
        [\<lparr>fip_id = ''fip-1'', public_ip = ''203.0.113.1'', in_use = True\<rparr>,
         \<lparr>fip_id = ''fip-2'', public_ip = ''203.0.113.2'', in_use = False\<rparr>]\<rparr>)) test_runtime
     \<lparr>inst_id = ''i-1'', inst_state = ''running'', public_ips = [], private_ips = [''10.0.0.5'']\<rparr>
     (PStr ''net-1'') []
     = (Inr ''203.0.113.2'',
        [Call ''networks.get'', Call ''gateways.get_or_create_inet_gateway'', Call ''floating_ips.list'',
         FipAttached ''i-1'' (FipObject \<lparr>fip_id = ''fip-2'', public_ip = ''203.0.113.2'', in_use = False\<rparr>)])
   \<and> attach_public_ip
     (test_provider (empty_cloud\<lparr>c_fips :=
        [\<lparr>fip_id = ''fip-1'', public_ip = ''203.0.113.1'', in_use = True\<rparr>]\<rparr>)) test_runtime
     \<lparr>inst_id = ''i-1'', inst_state = ''running'', public_ips = [], private_ips = [''10.0.0.5'']\<rparr>
     (PStr ''net-1'') []
     = (Inr ''203.0.113.9'',
        [Call ''networks.get'', Call ''gateways.get_or_create_inet_gateway'', Call ''floating_ips.list'',
         Call ''floating_ips.create'',
         FipAttached ''i-1'' (FipObject \<lparr>fip_id = ''fip-new'', public_ip = ''203.0.113.9'', in_use = False\<rparr>)])"
proof -
  have e: "ip_is_global test_runtime [] \<noteq> Inr True" by (simp add: test_runtime_def)
  let ?fip2 = "\<lparr>fip_id = ''fip-2'', public_ip = ''203.0.113.2'', in_use = False\<rparr>"
  let ?new = "\<lparr>fip_id = ''fip-new'', public_ip = ''203.0.113.9'', in_use = False\<rparr>"
  let ?net = "\<lparr>nw_id = ''net-1''\<rparr>" and ?gw = "\<lparr>gw_id = ''gw-1''\<rparr>"
  let ?l3 = "[Call ''networks.get'', Call ''gateways.get_or_create_inet_gateway'', Call ''floating_ips.list'']"
  note t = attach_public_ip_fallback [OF e]
  have 1: "attach_public_ip (test_provider empty_cloud) test_runtime
     \<lparr>inst_id = ''i-1'', inst_state = ''running'', public_ips = [''198.51.100.7''], private_ips = [''8.8.8.8'']\<rparr>
     (PStr ''net-1'') [] = (Inr ''198.51.100.7'', [])"
    using t [where p = "''198.51.100.7''" and ps = "[]" and s = "[]" and network_id = "PStr ''net-1''"
               and P = "test_provider empty_cloud"
               and inst = "\<lparr>inst_id = ''i-1'', inst_state = ''running'', public_ips = [''198.51.100.7''], private_ips = [''8.8.8.8'']\<rparr>"]
    by simp
  have 2: "attach_public_ip (test_provider empty_cloud) test_runtime
     \<lparr>inst_id = ''i-1'', inst_state = ''running'', public_ips = [], private_ips = [''8.8.8.8'']\<rparr>
     (PStr ''net-1'') [] = (Inr ''8.8.8.8'', [])"
    using t [where q = "''8.8.8.8''" and qs = "[]" and s = "[]" and network_id = "PStr ''net-1''"
               and P = "test_provider empty_cloud"
               and inst = "\<lparr>inst_id = ''i-1'', inst_state = ''running'', public_ips = [], private_ips = [''8.8.8.8'']\<rparr>"]
    by (simp add: test_runtime_def)
  have 3: "attach_public_ip
     (test_provider (empty_cloud\<lparr>c_fips :=
        [\<lparr>fip_id = ''fip-1'', public_ip = ''203.0.113.1'', in_use = True\<rparr>, ?fip2]\<rparr>)) test_runtime
     \<lparr>inst_id = ''i-1'', inst_state = ''running'', public_ips = [], private_ips = [''10.0.0.5'']\<rparr>
     (PStr ''net-1'') []
     = (Inr ''203.0.113.2'', ?l3 @ [FipAttached ''i-1'' (FipObject ?fip2)])"
    using t [where q = "''10.0.0.5''" and qs = "[]" and s = "[]" and network_id = "PStr ''net-1''"
               and net = ?net and gw = ?gw and fip = ?fip2
               and ips = "[\<lparr>fip_id = ''fip-1'', public_ip = ''203.0.113.1'', in_use = True\<rparr>, ?fip2]"
               and ?s1.0 = "[Call ''networks.get'']"
               and ?s2.0 = "[Call ''networks.get'', Call ''gateways.get_or_create_inet_gateway'']"
               and ?s3.0 = ?l3 and ?s4.0 = "?l3 @ [FipAttached ''i-1'' (FipObject ?fip2)]"
               and P = "test_provider (empty_cloud\<lparr>c_fips :=
                  [\<lparr>fip_id = ''fip-1'', public_ip = ''203.0.113.1'', in_use = True\<rparr>, ?fip2]\<rparr>)"
               and inst = "\<lparr>inst_id = ''i-1'', inst_state = ''running'', public_ips = [], private_ips = [''10.0.0.5'']\<rparr>"]
    by (simp add: test_defs)
  have 4: "attach_public_ip
     (test_provider (empty_cloud\<lparr>c_fips :=
        [\<lparr>fip_id = ''fip-1'', public_ip = ''203.0.113.1'', in_use = True\<rparr>]\<rparr>)) test_runtime
     \<lparr>inst_id = ''i-1'', inst_state = ''running'', public_ips = [], private_ips = [''10.0.0.5'']\<rparr>
     (PStr ''net-1'') []
     = (Inr ''203.0.113.9'', ?l3 @ [Call ''floating_ips.create'', FipAttached ''i-1'' (FipObject ?new)])"
    using t [where q = "''10.0.0.5''" and qs = "[]" and s = "[]" and network_id = "PStr ''net-1''"
               and net = ?net and gw = ?gw and new_fip = ?new
               and ips = "[\<lparr>fip_id = ''fip-1'', public_ip = ''203.0.113.1'', in_use = True\<rparr>]"
               and ?s1.0 = "[Call ''networks.get'']"
               and ?s2.0 = "[Call ''networks.get'', Call ''gateways.get_or_create_inet_gateway'']"
               and ?s3.0 = ?l3 and ?s5.0 = "?l3 @ [Call ''floating_ips.create'']"
               and ?s6.0 = "?l3 @ [Call ''floating_ips.create'', FipAttached ''i-1'' (FipObject ?new)]"
               and P = "test_provider (empty_cloud\<lparr>c_fips :=
                  [\<lparr>fip_id = ''fip-1'', public_ip = ''203.0.113.1'', in_use = True\<rparr>]\<rparr>)"
               and inst = "\<lparr>inst_id = ''i-1'', inst_state = ''running'', public_ips = [], private_ips = [''10.0.0.5'']\<rparr>"]
    by (simp add: test_defs)
  from 1 2 3 4 show ?thesis by simp
qed

text \<open>
  Claim C10.  When the instance reports no public address (the list is empty or its first
  entry is the empty string), \<^verbatim>\<open>attach_public_ip\<close> reads \<^verbatim>\<open>inst.private_ips[0]\<close> and parses it
  before anything else: with no private address the call raises \<^verbatim>\<open>IndexError\<close>, and with a
  first private address that \<^verbatim>\<open>ipaddress.ip_address\<close> rejects it raises that error.  In both
  cases no provider operation has run: the world is unchanged, whatever the provider.
\<close>

theorem attach_public_ip_needs_private_ip:
  assumes "public_ips inst = [] \<or> hd (public_ips inst) = []"
  shows "(private_ips inst = [] \<longrightarrow>
            attach_public_ip P E inst network_id s = (Inl (Exn IndexError ''list index out of range''), s))
       \<and> (\<forall>priv rest e. private_ips inst = priv # rest \<and> ip_is_global E priv = Inl e \<longrightarrow>
            attach_public_ip P E inst network_id s = (Inl e, s))"
  using assms by (auto simp: attach_public_ip_def monad_simps)

theorem attach_public_ip_needs_private_ip_witness:
  "attach_public_ip (test_provider empty_cloud) test_runtime
     \<lparr>inst_id = ''i-1'', inst_state = ''running'', public_ips = [], private_ips = []\<rparr> (PStr ''net-1'') []
     = (Inl (Exn IndexError ''list index out of range''), [])
   \<and> attach_public_ip (test_provider empty_cloud) test_runtime
     \<lparr>inst_id = ''i-1'', inst_state = ''running'', public_ips = [[]], private_ips = [''not-an-address'']\<rparr>
     (PStr ''net-1'') []
     = (Inl (Exn ValueError ''does not appear to be an IPv4 or IPv6 address''), [])"
proof -
  let ?i1 = "\<lparr>inst_id = ''i-1'', inst_state = ''running'', public_ips = [], private_ips = []\<rparr>"
  let ?i2 = "\<lparr>inst_id = ''i-1'', inst_state = ''running'', public_ips = [[]], private_ips = [''not-an-address'']\<rparr>"
  have a: "public_ips ?i1 = [] \<or> hd (public_ips ?i1) = []" by simp
  have b: "public_ips ?i2 = [] \<or> hd (public_ips ?i2) = []" by simp
  have c: "ip_is_global test_runtime ''not-an-address''
             = Inl (Exn ValueError ''does not appear to be an IPv4 or IPv6 address'')"
    by (simp add: test_runtime_def)
  from attach_public_ip_needs_private_ip [OF a, of "test_provider empty_cloud" test_runtime "PStr ''net-1''" "[]"]
       attach_public_ip_needs_private_ip [OF b, of "test_provider empty_cloud" test_runtime "PStr ''net-1''" "[]"] c
  show ?thesis by simp
qed

section \<open>Network resolution: results\<close>

lemma find_first:
  "(\<forall>x \<in> set pre. \<not> Q x) \<Longrightarrow> Q y \<Longrightarrow> List.find Q (pre @ y # post) = Some y"
  by (induction pre) auto

lemma find_none: "(\<forall>x \<in> set xs. \<not> Q x) \<Longrightarrow> List.find Q xs = None"
  by (simp add: find_None_iff)

text \<open>
  Claim C6, as amended.  With a network id given and the network found,
  \<^verbatim>\<open>get_or_create_default_subnet\<close> returns the first subnet of that network that fits the
  placement (every subnet fits when there is no placement, else the zone must equal it).
  The provider's default subnet for the placement (the empty string when there is none) is
  requested when no network id is given, and also when no subnet of the given network fits.
\<close>

theorem get_or_create_default_subnet_resolution:
  "(truthy network_id \<and> networks_get (networking P) network_id s = (Inr (Some net), s1)
      \<and> network_subnets (networking P) net s1 = (Inr (pre @ sn # post), s2)
      \<and> (\<forall>x \<in> set pre. truthy placement \<and> PStr (sn_zone x) \<noteq> placement)
      \<and> (truthy placement \<longrightarrow> PStr (sn_zone sn) = placement) \<longrightarrow>
    get_or_create_default_subnet P network_id placement s = (Inr (Some sn), s2))
   \<and> (truthy network_id \<and> networks_get (networking P) network_id s = (Inr (Some net), s1)
      \<and> network_subnets (networking P) net s1 = (Inr sns, s2)
      \<and> (\<forall>x \<in> set sns. truthy placement \<and> PStr (sn_zone x) \<noteq> placement) \<longrightarrow>
    get_or_create_default_subnet P network_id placement s
      = subnets_get_or_create_default (networking P) (if truthy placement then placement else PStr []) s2)
   \<and> (\<not> truthy network_id \<longrightarrow>
    get_or_create_default_subnet P network_id placement s
      = subnets_get_or_create_default (networking P) (if truthy placement then placement else PStr []) s)"
proof (intro conjI impI)
  assume a: "truthy network_id \<and> networks_get (networking P) network_id s = (Inr (Some net), s1)
      \<and> network_subnets (networking P) net s1 = (Inr (pre @ sn # post), s2)
      \<and> (\<forall>x \<in> set pre. truthy placement \<and> PStr (sn_zone x) \<noteq> placement)
      \<and> (truthy placement \<longrightarrow> PStr (sn_zone sn) = placement)"
  then have "List.find (\<lambda>sn. \<not> truthy placement \<or> PStr (sn_zone sn) = placement) (pre @ sn # post) = Some sn"
    by (intro find_first) auto
  with a show "get_or_create_default_subnet P network_id placement s = (Inr (Some sn), s2)"
    by (simp add: get_or_create_default_subnet_def bnd_Inr ret_apply)
next
  assume a: "truthy network_id \<and> networks_get (networking P) network_id s = (Inr (Some net), s1)
      \<and> network_subnets (networking P) net s1 = (Inr sns, s2)
      \<and> (\<forall>x \<in> set sns. truthy placement \<and> PStr (sn_zone x) \<noteq> placement)"
  then have "List.find (\<lambda>sn. \<not> truthy placement \<or> PStr (sn_zone sn) = placement) sns = None"
    by (intro find_none) auto
  with a show "get_or_create_default_subnet P network_id placement s
      = subnets_get_or_create_default (networking P) (if truthy placement then placement else PStr []) s2"
    by (simp add: get_or_create_default_subnet_def bnd_Inr)
next
  assume "\<not> truthy network_id"
  then show "get_or_create_default_subnet P network_id placement s
      = subnets_get_or_create_default (networking P) (if truthy placement then placement else PStr []) s"
    by (simp add: get_or_create_default_subnet_def)
qed

text \<open>
  The claim as first stated has the default subnet requested only when no network id is
  given, and the result a subnet of the given network.  For the network \<^verbatim>\<open>net-1\<close> without
  subnets the provider's default subnet is requested and returned; it lies on another network.
\<close>

theorem get_or_create_default_subnet_counterexample:
  "get_or_create_default_subnet (test_provider bare_network_cloud) (PStr ''net-1'') (PStr []) []
     = (Inr (Some default_subnet),
        [Call ''networks.get'', Call ''network.subnets'', Call ''subnets.get_or_create_default''])
   \<and> sn_network_id default_subnet \<noteq> Some ''net-1''"
  by (simp add: get_or_create_default_subnet_def bare_network_cloud_def default_subnet_def test_defs
        bnd_apply monad_simps)

theorem get_or_create_default_subnet_resolution_witness:
  "get_or_create_default_subnet (test_provider network_cloud) (PStr ''net-1'') (PStr ''zone-2'') []
     = (Inr (Some subnet_b), [Call ''networks.get'', Call ''network.subnets''])
   \<and> get_or_create_default_subnet (test_provider network_cloud) (PStr ''net-1'') (PStr ''zone-3'') []
     = (Inr (Some default_subnet),
        [Call ''networks.get'', Call ''network.subnets'', Call ''subnets.get_or_create_default''])
   \<and> get_or_create_default_subnet (test_provider network_cloud) PNone PNone []
     = (Inr (Some default_subnet), [Call ''subnets.get_or_create_default''])"
proof -
  let ?P = "test_provider network_cloud"
  let ?net = "\<lparr>nw_id = ''net-1''\<rparr>"
  let ?s2 = "[Call ''networks.get'', Call ''network.subnets'']"
  have g: "networks_get (networking ?P) (PStr ''net-1'') [] = (Inr (Some ?net), [Call ''networks.get''])"
    by (simp add: test_defs network_cloud_def)
  have l: "network_subnets (networking ?P) ?net [Call ''networks.get''] = (Inr ([subnet_a] @ subnet_b # []), ?s2)"
    by (simp add: test_defs network_cloud_def subnet_a_def subnet_b_def)
  have d: "subnets_get_or_create_default (networking ?P) z s
             = (Inr (Some default_subnet), s @ [Call ''subnets.get_or_create_default''])" for z s
    by (simp add: test_defs network_cloud_def)
  note t = get_or_create_default_subnet_resolution [where P = ?P and s = "[]"]
  have 1: "get_or_create_default_subnet ?P (PStr ''net-1'') (PStr ''zone-2'') [] = (Inr (Some subnet_b), ?s2)"
    using t [where network_id = "PStr ''net-1''" and placement = "PStr ''zone-2''" and net = ?net
               and pre = "[subnet_a]" and sn = subnet_b and post = "[]" and ?s1.0 = "[Call ''networks.get'']"
               and ?s2.0 = ?s2] g l
    by (simp add: subnet_a_def subnet_b_def)
  have 2: "get_or_create_default_subnet ?P (PStr ''net-1'') (PStr ''zone-3'') []
             = (Inr (Some default_subnet), ?s2 @ [Call ''subnets.get_or_create_default''])"
    using t [where network_id = "PStr ''net-1''" and placement = "PStr ''zone-3''" and net = ?net
               and sns = "[subnet_a] @ subnet_b # []" and ?s1.0 = "[Call ''networks.get'']" and ?s2.0 = ?s2] g l
    by (simp add: subnet_a_def subnet_b_def d)
  have 3: "get_or_create_default_subnet ?P PNone PNone []
             = (Inr (Some default_subnet), [Call ''subnets.get_or_create_default''])"
    using t [where network_id = PNone and placement = PNone] by (simp add: d)
  from 1 2 3 show ?thesis by simp
qed

lemma connect_subnet_swallowed:
  "\<exists>b. try_except (connect_subnet P subnet) (\<lambda>e. ret False) s = (Inr b, snd (connect_subnet P subnet s))"
  by (cases "connect_subnet P subnet s") (auto simp: try_except_def ret_def split: sum.splits)

text \<open>
  Claim C9.  Once \<^verbatim>\<open>setup_networking\<close> has resolved a subnet (fetched by id, or through
  \<^verbatim>\<open>get_or_create_default_subnet\<close>), it returns that subnet, whatever the provider does while
  the router and the gateway are looked up, created and attached: every exception raised
  there is caught.  The world is the one those steps left.
\<close>

theorem setup_networking_returns_subnet:
  "(if truthy subnet_id then subnets_get (networking P) subnet_id s
    else get_or_create_default_subnet P net_id placement s) = (Inr subnet, s1) \<longrightarrow>
   setup_networking P net_id subnet_id placement s = (Inr subnet, snd (connect_subnet P subnet s1))"
proof
  assume a: "(if truthy subnet_id then subnets_get (networking P) subnet_id s
    else get_or_create_default_subnet P net_id placement s) = (Inr subnet, s1)"
  obtain b where "try_except (connect_subnet P subnet) (\<lambda>e. ret False) s1
                    = (Inr b, snd (connect_subnet P subnet s1))"
    using connect_subnet_swallowed [of P subnet s1] by blast
  with a show "setup_networking P net_id subnet_id placement s = (Inr subnet, snd (connect_subnet P subnet s1))"
    by (simp add: setup_networking_def bnd_apply ret_apply split: if_splits)
qed

theorem setup_networking_returns_subnet_witness:
  "setup_networking (test_provider (failing_cloud ''routers.create'')) PNone (PStr ''sn-a'') (PStr []) []
     = (Inr (Some subnet_a),
        [Call ''subnets.get'', Call ''routers.list'', Call ''subnet._network.name'', Call ''routers.create''])
   \<and> setup_networking (test_provider (failing_cloud ''gateways.get_or_create_inet_gateway''))
       PNone (PStr ''sn-a'') (PStr []) []
     = (Inr (Some subnet_a),
        [Call ''subnets.get'', Call ''routers.list'', Call ''subnet._network.name'', Call ''routers.create'',
         Call ''networks.get'', Call ''gateways.get_or_create_inet_gateway''])
   \<and> setup_networking (test_provider (failing_cloud ''router.attach_subnet''))
       PNone (PStr ''sn-a'') (PStr []) []
     = (Inr (Some subnet_a),
        [Call ''subnets.get'', Call ''routers.list'', Call ''subnet._network.name'', Call ''routers.create'',
         Call ''networks.get'', Call ''gateways.get_or_create_inet_gateway'', Call ''router.attach_gateway'',
         Call ''subnet.network'', Call ''network.subnets'', Call ''router.attach_subnet''])"
proof -
  note defs = test_defs failing_cloud_def network_cloud_def subnet_a_def subnet_b_def connect_subnet_def
    bnd_apply try_except_apply monad_simps opt_str_def
  have g: "(if truthy (PStr ''sn-a'') then subnets_get (networking (test_provider (failing_cloud opn))) (PStr ''sn-a'') []
            else get_or_create_default_subnet (test_provider (failing_cloud opn)) PNone (PStr []) [])
           = (Inr (Some subnet_a), [Call ''subnets.get''])"
    if "opn \<noteq> ''subnets.get''" for opn
    using that by (simp add: test_defs failing_cloud_def network_cloud_def subnet_a_def subnet_b_def)
  note t = setup_networking_returns_subnet [where subnet_id = "PStr ''sn-a''" and net_id = PNone
             and placement = "PStr []" and s = "[]" and subnet = "Some subnet_a"
             and ?s1.0 = "[Call ''subnets.get'']", THEN mp, OF g]
  have 1: "setup_networking (test_provider (failing_cloud ''routers.create'')) PNone (PStr ''sn-a'') (PStr []) []
     = (Inr (Some subnet_a),
        [Call ''subnets.get'', Call ''routers.list'', Call ''subnet._network.name'', Call ''routers.create''])"
    using t [of "''routers.create''"] by (simp add: defs)
  have 2: "setup_networking (test_provider (failing_cloud ''gateways.get_or_create_inet_gateway''))
       PNone (PStr ''sn-a'') (PStr []) []
     = (Inr (Some subnet_a),
        [Call ''subnets.get'', Call ''routers.list'', Call ''subnet._network.name'', Call ''routers.create'',
         Call ''networks.get'', Call ''gateways.get_or_create_inet_gateway''])"
    using t [of "''gateways.get_or_create_inet_gateway''"] by (simp add: defs)
  have 3: "setup_networking (test_provider (failing_cloud ''router.attach_subnet''))
       PNone (PStr ''sn-a'') (PStr []) []
     = (Inr (Some subnet_a),
        [Call ''subnets.get'', Call ''routers.list'', Call ''subnet._network.name'', Call ''routers.create'',
         Call ''networks.get'', Call ''gateways.get_or_create_inet_gateway'', Call ''router.attach_gateway'',
         Call ''subnet.network'', Call ''network.subnets'', Call ''router.attach_subnet''])"
    using t [of "''router.attach_subnet''"] by (simp add: defs)
  from 1 2 3 show ?thesis by simp
qed

section \<open>Deployment: results\<close>

lemma configure_host_create_fails:
  "create_configurer C app_config s = (Inl e, s1) \<Longrightarrow>
   configure_host T C name app_config pc s
     = (Inr (PDict []), update_state T ''ERROR'' (''Unable to create app configurer: '' @ exn_msg e) s1)"
  by (simp add: configure_host_def attempt_def bnd_apply emit_def ret_apply)

lemma configure_host_validate_fails:
  "create_configurer C app_config s = (Inr cf, sc) \<Longrightarrow>
   validate cf app_config pc (update_state T ''PROGRESSING'' ''Validating provider connection info...'' sc)
     = (Inl e, s1) \<Longrightarrow>
   configure_host T C name app_config pc s
     = (Inr (PDict []),
        update_state T ''ERROR'' (''Validation of provider connection info failed: '' @ exn_msg e) s1)"
  by (simp add: configure_host_def attempt_def bnd_apply emit_def ret_apply)

lemma configure_host_configure_fails:
  "create_configurer C app_config s = (Inr cf, sc) \<Longrightarrow>
   validate cf app_config pc (update_state T ''PROGRESSING'' ''Validating provider connection info...'' sc)
     = (Inr (), sv) \<Longrightarrow>
   configure cf app_config pc (update_state T ''PROGRESSING'' ''Configuring application...'' sv)
     = (Inl e, s1) \<Longrightarrow>
   configure_host T C name app_config pc s
     = (Inr (PDict []), update_state T ''ERROR'' (''Configuration failed: '' @ exn_msg e) s1)"
  by (simp add: configure_host_def attempt_def bnd_apply emit_def ret_apply try_except_apply)

lemma dict_get_present:
  "dict_get d k PNone = PDict a \<Longrightarrow> dict_get d k dflt = PDict a"
  by (auto simp: dict_get_def split: option.splits)

lemma merge_results_no_configuration:
  "merge_results (PDict [(''cloudLaunch'', PDict results)]) (PDict [])
     = Inr [(''cloudLaunch'', PDict results)]"
  by (simp add: merge_results_def bind_res_def dict_get_def dict_merge_def)

lemma deploy_after_provisioning:
  assumes "\<not> truthy (dict_get provider_config ''host_address'' PNone)"
      and "dict_get app_config ''config_appliance'' PNone = PDict appliance" and "appliance \<noteq> []"
      and "generate_key_pair C s = (Inr (public_key, private_key), s1)"
      and "pc1 = dict_set (dict_set (dict_set (dict_set provider_config
                   ''ssh_private_key'' (PStr private_key)) ''ssh_public_key'' (PStr public_key))
                   ''ssh_user'' (dict_get appliance ''sshUser'' PNone))
                   ''run_cmd'' (dict_get appliance ''runCmd'' PNone)"
      and "provision_host T P E name app_config pc1 s1 = (Inr p_result, s2)"
      and "py_get (dict_get p_result ''cloudLaunch'' PNone) ''publicIP'' PNone = Inr host"
      and "configure_host T C name app_config (dict_set pc1 ''host_address'' host) s2 = (Inr c_result, s3)"
  shows "deploy T P E C name app_config provider_config s = (merge_results (PDict p_result) c_result, s3)"
  using assms
  by (simp add: deploy_def bnd_apply ret_apply pure_res_apply dict_get_present [OF assms(2)])

text \<open>
  Claim C7.  A deployment that asks for configuration (a non-empty \<^verbatim>\<open>config_appliance\<close>) and
  has no host address yet generates a key pair, provisions the host and then configures it.
  Suppose provisioning returned \<open>p_result\<close>, and creating the configurer, \<^verbatim>\<open>validate\<close> or
  \<^verbatim>\<open>configure\<close> raises \<open>e\<close>.  Then \<^verbatim>\<open>_configure_host\<close> returns the empty dictionary, the last
  thing that happens to the world is the report of state \<^verbatim>\<open>ERROR\<close> to the progress sink, with
  the message of \<open>e\<close>, and \<^verbatim>\<open>deploy\<close> returns \<open>p_result\<close> as it is: nothing is raised.
\<close>

theorem configuration_failure_is_contained:
  assumes "\<not> truthy (dict_get provider_config ''host_address'' PNone)"
      and "dict_get app_config ''config_appliance'' PNone = PDict appliance" and "appliance \<noteq> []"
      and "generate_key_pair C s = (Inr (public_key, private_key), s1)"
      and "pc1 = dict_set (dict_set (dict_set (dict_set provider_config
                   ''ssh_private_key'' (PStr private_key)) ''ssh_public_key'' (PStr public_key))
                   ''ssh_user'' (dict_get appliance ''sshUser'' PNone))
                   ''run_cmd'' (dict_get appliance ''runCmd'' PNone)"
      and "provision_host T P E name app_config pc1 s1 = (Inr p_result, s2)"
      and "py_get (dict_get p_result ''cloudLaunch'' PNone) ''publicIP'' PNone = Inr host"
      and "pc2 = dict_set pc1 ''host_address'' host"
      and "(create_configurer C app_config s2 = (Inl e, s3)
              \<and> report = ''Unable to create app configurer: '' @ exn_msg e)
         \<or> (create_configurer C app_config s2 = (Inr cf, sc)
              \<and> validate cf app_config pc2
                   (update_state T ''PROGRESSING'' ''Validating provider connection info...'' sc) = (Inl e, s3)
              \<and> report = ''Validation of provider connection info failed: '' @ exn_msg e)
         \<or> (create_configurer C app_config s2 = (Inr cf, sc)
              \<and> validate cf app_config pc2
                   (update_state T ''PROGRESSING'' ''Validating provider connection info...'' sc) = (Inr (), sv)
              \<and> configure cf app_config pc2
                   (update_state T ''PROGRESSING'' ''Configuring application...'' sv) = (Inl e, s3)
              \<and> report = ''Configuration failed: '' @ exn_msg e)"
  shows "configure_host T C name app_config pc2 s2 = (Inr (PDict []), update_state T ''ERROR'' report s3)
       \<and> deploy T P E C name app_config provider_config s
           = (Inr p_result, update_state T ''ERROR'' report s3)"
proof -
  from assms(9) have c: "configure_host T C name app_config pc2 s2
                           = (Inr (PDict []), update_state T ''ERROR'' report s3)"
    by (auto simp: configure_host_create_fails configure_host_validate_fails configure_host_configure_fails)
  obtain results where p: "p_result = [(''cloudLaunch'', PDict results)]"
    using provision_host_shape [OF assms(6)] by blast
  have "deploy T P E C name app_config provider_config s
          = (merge_results (PDict p_result) (PDict []), update_state T ''ERROR'' report s3)"
    using c unfolding assms(8)
    by (rule deploy_after_provisioning [OF assms(1-7)])
  with c p show ?thesis
    by (simp add: merge_results_no_configuration)
qed

theorem configuration_failure_is_contained_witness:
  "fst (deploy test_task (test_provider network_cloud) test_runtime
          (test_collaborators (failing_cloud ''create_configurer'')) ''vm'' fw_app_config test_provider_config [])
     = Inr [(''cloudLaunch'', PDict
              [(''keyPair'', PDict [(''id'', PStr ''kp-1''), (''name'', PStr ''cloudlaunch-key-pair''),
                                    (''material'', PStr ''PRIVATE'')]),
               (''securityGroup'', PDict [(''id'', PStr ''fw-new''), (''name'', PStr ''MyApp'')]),
               (''instance'', PDict [(''id'', PStr ''i-1'')]),
               (''publicIP'', PStr ''203.0.113.9'')])]
   \<and> last (snd (deploy test_task (test_provider network_cloud) test_runtime
          (test_collaborators (failing_cloud ''create_configurer'')) ''vm'' fw_app_config test_provider_config []))
     = Call ''ERROR: Unable to create app configurer: create_configurer''
   \<and> fst (deploy test_task (test_provider network_cloud) test_runtime
          (test_collaborators (failing_cloud ''validate'')) ''vm'' fw_app_config test_provider_config [])
     = Inr [(''cloudLaunch'', PDict
              [(''keyPair'', PDict [(''id'', PStr ''kp-1''), (''name'', PStr ''cloudlaunch-key-pair''),
                                    (''material'', PStr ''PRIVATE'')]),
               (''securityGroup'', PDict [(''id'', PStr ''fw-new''), (''name'', PStr ''MyApp'')]),
               (''instance'', PDict [(''id'', PStr ''i-1'')]),
               (''publicIP'', PStr ''203.0.113.9'')])]
   \<and> last (snd (deploy test_task (test_provider network_cloud) test_runtime
          (test_collaborators (failing_cloud ''validate'')) ''vm'' fw_app_config test_provider_config []))
     = Call ''ERROR: Validation of provider connection info failed: validate''
   \<and> fst (deploy test_task (test_provider network_cloud) test_runtime
          (test_collaborators (failing_cloud ''configure'')) ''vm'' fw_app_config test_provider_config [])
     = Inr [(''cloudLaunch'', PDict
              [(''keyPair'', PDict [(''id'', PStr ''kp-1''), (''name'', PStr ''cloudlaunch-key-pair''),
                                    (''material'', PStr ''PRIVATE'')]),
               (''securityGroup'', PDict [(''id'', PStr ''fw-new''), (''name'', PStr ''MyApp'')]),
               (''instance'', PDict [(''id'', PStr ''i-1'')]),
               (''publicIP'', PStr ''203.0.113.9'')])]
   \<and> last (snd (deploy test_task (test_provider network_cloud) test_runtime
          (test_collaborators (failing_cloud ''configure'')) ''vm'' fw_app_config test_provider_config []))
     = Call ''ERROR: Configuration failed: configure''"
proof -
  let ?P = "test_provider network_cloud"
  let ?appliance = "[(''sshUser'', PStr ''ubuntu''), (''runCmd'', PList [PStr ''apt update''])]"
  let ?p = "[(''cloudLaunch'', PDict
              [(''keyPair'', PDict [(''id'', PStr ''kp-1''), (''name'', PStr ''cloudlaunch-key-pair''),
                                    (''material'', PStr ''PRIVATE'')]),
               (''securityGroup'', PDict [(''id'', PStr ''fw-new''), (''name'', PStr ''MyApp'')]),
               (''instance'', PDict [(''id'', PStr ''i-1'')]),
               (''publicIP'', PStr ''203.0.113.9'')])]"
  define pc1 where "pc1 = dict_set (dict_set (dict_set (dict_set test_provider_config
                   ''ssh_private_key'' (PStr ''PRIVATE'')) ''ssh_public_key'' (PStr ''ssh-rsa PUBLIC''))
                   ''ssh_user'' (dict_get ?appliance ''sshUser'' PNone))
                   ''run_cmd'' (dict_get ?appliance ''runCmd'' PNone)"
  define pc2 where "pc2 = dict_set pc1 ''host_address'' (PStr ''203.0.113.9'')"
  define r where "r = provision_host test_task ?P test_runtime ''vm'' fw_app_config pc1 [Call ''generate_key_pair'']"
  define s2 where "s2 = snd r"
  have "fst r = Inr ?p"
    unfolding r_def pc1_def
    by (simp add: model_defs run_defs fw_app_config_def myapp_group_def test_provider_config_def
          network_cloud_def default_subnet_def subnet_a_def subnet_b_def)
  then have prov: "provision_host test_task ?P test_runtime ''vm'' fw_app_config pc1 [Call ''generate_key_pair'']
                     = (Inr ?p, s2)"
    unfolding s2_def r_def [symmetric] by (cases r) simp
  have nohost: "\<not> truthy (dict_get test_provider_config ''host_address'' PNone)"
    by (simp add: test_provider_config_def dict_get_def)
  have appl: "dict_get fw_app_config ''config_appliance'' PNone = PDict ?appliance"
    by (simp add: fw_app_config_def dict_get_def)
  have ne: "?appliance \<noteq> []" by simp
  have keys: "generate_key_pair (test_collaborators (failing_cloud opn)) []
                = (Inr (''ssh-rsa PUBLIC'', ''PRIVATE''), [Call ''generate_key_pair''])"
    if "opn \<noteq> ''generate_key_pair''" for opn
    using that by (simp add: test_collaborators_def failing_cloud_def answer_def)
  have k1: "generate_key_pair (test_collaborators (failing_cloud ''create_configurer'')) []
                = (Inr (''ssh-rsa PUBLIC'', ''PRIVATE''), [Call ''generate_key_pair''])"
   and k2: "generate_key_pair (test_collaborators (failing_cloud ''validate'')) []
                = (Inr (''ssh-rsa PUBLIC'', ''PRIVATE''), [Call ''generate_key_pair''])"
   and k3: "generate_key_pair (test_collaborators (failing_cloud ''configure'')) []
                = (Inr (''ssh-rsa PUBLIC'', ''PRIVATE''), [Call ''generate_key_pair''])"
    by (simp_all add: keys)
  have host: "py_get (dict_get ?p ''cloudLaunch'' PNone) ''publicIP'' PNone = Inr (PStr ''203.0.113.9'')"
    by (simp add: dict_get_def)
  note t = configuration_failure_is_contained [where T = test_task and P = ?P and E = test_runtime
             and name = "''vm''" and s = "[]" and ?pc2.0 = pc2 and ?s2.0 = s2,
             OF nohost appl ne _ pc1_def prov host pc2_def]
  note cdefs = test_collaborators_def test_configurer_def failing_cloud_def answer_def test_task_def
  have 1: "deploy test_task ?P test_runtime (test_collaborators (failing_cloud ''create_configurer''))
             ''vm'' fw_app_config test_provider_config []
           = (Inr ?p, (s2 @ [Call ''create_configurer''])
                @ [Call ''ERROR: Unable to create app configurer: create_configurer''])"
    using t [OF k1, where e = "Exn CloudError ''create_configurer''"
               and ?s3.0 = "s2 @ [Call ''create_configurer'']"
               and report = "''Unable to create app configurer: create_configurer''"]
    by (simp add: cdefs)
  have 2: "deploy test_task ?P test_runtime (test_collaborators (failing_cloud ''validate''))
             ''vm'' fw_app_config test_provider_config []
           = (Inr ?p, (s2 @ [Call ''create_configurer'',
                              Call ''PROGRESSING: Validating provider connection info...'', Call ''validate''])
                @ [Call ''ERROR: Validation of provider connection info failed: validate''])"
    using t [OF k2, where e = "Exn CloudError ''validate''"
               and cf = "test_configurer (failing_cloud ''validate'')"
               and sc = "s2 @ [Call ''create_configurer'']"
               and ?s3.0 = "s2 @ [Call ''create_configurer'',
                              Call ''PROGRESSING: Validating provider connection info...'', Call ''validate'']"
               and report = "''Validation of provider connection info failed: validate''"]
    by (simp add: cdefs)
  have 3: "deploy test_task ?P test_runtime (test_collaborators (failing_cloud ''configure''))
             ''vm'' fw_app_config test_provider_config []
           = (Inr ?p, (s2 @ [Call ''create_configurer'',
                              Call ''PROGRESSING: Validating provider connection info...'', Call ''validate'',
                              Call ''PROGRESSING: Configuring application...'', Call ''configure''])
                @ [Call ''ERROR: Configuration failed: configure''])"
    using t [OF k3, where e = "Exn CloudError ''configure''"
               and cf = "test_configurer (failing_cloud ''configure'')"
               and sc = "s2 @ [Call ''create_configurer'']"
               and sv = "s2 @ [Call ''create_configurer'',
                              Call ''PROGRESSING: Validating provider connection info...'', Call ''validate'']"
               and ?s3.0 = "s2 @ [Call ''create_configurer'',
                              Call ''PROGRESSING: Validating provider connection info...'', Call ''validate'',
                              Call ''PROGRESSING: Configuring application...'', Call ''configure'']"
               and report = "''Configuration failed: configure''"]
    by (simp add: cdefs)
  show ?thesis
    unfolding 1 2 3 by simp
qed

lemma map_of_dict_set: "map_of (dict_set d k v) = (map_of d)(k \<mapsto> v)"
  by (induction d k v rule: dict_set.induct) auto

lemma map_of_dict_merge:
  "distinct (map fst c) \<Longrightarrow>
   map_of (dict_merge p c) k = (case map_of c k of Some v \<Rightarrow> Some v | None \<Rightarrow> map_of p k)"
  unfolding dict_merge_def
proof (induction c arbitrary: p)
  case Nil
  then show ?case by simp
next
  case (Cons kv c)
  obtain k' v' where kv: "kv = (k', v')" by (cases kv)
  from Cons.prems kv have d: "distinct (map fst c)" and fresh: "map_of c k' = None"
    by (auto simp: map_of_eq_None_iff)
  have "map_of (fold (\<lambda>(k, v) d. dict_set d k v) c (dict_set p k' v')) k
          = (case map_of c k of Some v \<Rightarrow> Some v | None \<Rightarrow> map_of (dict_set p k' v') k)"
    by (rule Cons.IH [OF d])
  with fresh show ?case
    by (auto simp: kv map_of_dict_set split: option.splits)
qed

text \<open>
  The returned expression by itself, on the example of the specification:
  \<^verbatim>\<open>{"a":1,"b":2}\<close> and \<^verbatim>\<open>{"b":3,"c":4}\<close> merge to \<^verbatim>\<open>{"a":1,"b":3,"c":4}\<close>.
\<close>

lemma merge_results_precedence:
  assumes "distinct (map fst c)"
  shows "merge_results (PDict [(''cloudLaunch'', PDict p)]) (PDict [(''cloudLaunch'', PDict c)])
           = Inr [(''cloudLaunch'', PDict (dict_merge p c))]
       \<and> map_of (dict_merge p c) k = (if k \<in> dom (map_of c) then map_of c k else map_of p k)"
proof -
  have "merge_results (PDict [(''cloudLaunch'', PDict p)]) (PDict [(''cloudLaunch'', PDict c)])
           = Inr [(''cloudLaunch'', PDict (dict_merge p c))]"
    by (simp add: merge_results_def bind_res_def dict_get_def)
  moreover have "map_of (dict_merge p c) k = (if k \<in> dom (map_of c) then map_of c k else map_of p k)"
    using map_of_dict_merge [OF assms, of p k] by (auto split: option.splits)
  ultimately show ?thesis by simp
qed

lemma merge_results_example:
  "merge_results (PDict [(''cloudLaunch'', PDict [(''a'', PInt 1), (''b'', PInt 2)])])
                 (PDict [(''cloudLaunch'', PDict [(''b'', PInt 3), (''c'', PInt 4)])])
     = Inr [(''cloudLaunch'', PDict [(''a'', PInt 1), (''b'', PInt 3), (''c'', PInt 4)])]
   \<and> map_of (dict_merge [(''a'', PInt 1), (''b'', PInt 2)] [(''b'', PInt 3), (''c'', PInt 4)]) ''b''
       = Some (PInt 3)"
proof -
  have d: "distinct (map fst [(''b'', PInt 3), (''c'', PInt 4)])" by simp
  have m: "dict_merge [(''a'', PInt 1), (''b'', PInt 2)] [(''b'', PInt 3), (''c'', PInt 4)]
             = [(''a'', PInt 1), (''b'', PInt 3), (''c'', PInt 4)]"
    by (simp add: dict_merge_def)
  from merge_results_precedence [OF d, of "[(''a'', PInt 1), (''b'', PInt 2)]" "''b''"]
  show ?thesis by (simp add: m)
qed

lemma merge_results_wrapped:
  "py_get c_result ''cloudLaunch'' (PDict []) = Inr (PDict c) \<Longrightarrow>
   merge_results (PDict [(''cloudLaunch'', PDict p)]) c_result
     = Inr [(''cloudLaunch'', PDict (dict_merge p c))]"
  by (simp add: merge_results_def bind_res_def dict_get_def)

text \<open>
  Claim C8.  Take a run of \<^verbatim>\<open>deploy\<close> that provisions and configures (no host address yet,
  a non-empty \<^verbatim>\<open>config_appliance\<close>), in which \<^verbatim>\<open>_provision_host\<close> returns
  \<^verbatim>\<open>{'cloudLaunch': p}\<close> (it returns nothing of another shape, \<open>provision_host_shape\<close>) and
  \<^verbatim>\<open>_configure_host\<close> returns a result whose \<^verbatim>\<open>.get('cloudLaunch', {})\<close> is the dictionary
  \<open>c\<close>.  Then \<^verbatim>\<open>deploy\<close> returns \<^verbatim>\<open>{'cloudLaunch': m}\<close> where the merge \<open>m\<close> maps a key of
  \<open>c\<close> to the value \<open>c\<close> gives it and any other key to the value \<open>p\<close> gives it.  A Python
  dictionary has each key once; that is the hypothesis on the association list \<open>c\<close>.  In
  the witness the configurer returns a \<^verbatim>\<open>publicIP\<close> of its own and a new key: the outcome has
  the configurer's \<^verbatim>\<open>publicIP\<close>, the new key, and the other provisioning fields.
\<close>

theorem deploy_merge_precedence:
  assumes "\<not> truthy (dict_get provider_config ''host_address'' PNone)"
      and "dict_get app_config ''config_appliance'' PNone = PDict appliance" and "appliance \<noteq> []"
      and "generate_key_pair C s = (Inr (public_key, private_key), s1)"
      and "pc1 = dict_set (dict_set (dict_set (dict_set provider_config
                   ''ssh_private_key'' (PStr private_key)) ''ssh_public_key'' (PStr public_key))
                   ''ssh_user'' (dict_get appliance ''sshUser'' PNone))
                   ''run_cmd'' (dict_get appliance ''runCmd'' PNone)"
      and "provision_host T P E name app_config pc1 s1 = (Inr [(''cloudLaunch'', PDict p)], s2)"
      and "configure_host T C name app_config
             (dict_set pc1 ''host_address'' (dict_get p ''publicIP'' PNone)) s2 = (Inr c_result, s3)"
      and "py_get c_result ''cloudLaunch'' (PDict []) = Inr (PDict c)"
      and "distinct (map fst c)"
  shows "deploy T P E C name app_config provider_config s
           = (Inr [(''cloudLaunch'', PDict (dict_merge p c))], s3)
       \<and> map_of (dict_merge p c) k = (if k \<in> dom (map_of c) then map_of c k else map_of p k)"
proof -
  have host: "py_get (dict_get [(''cloudLaunch'', PDict p)] ''cloudLaunch'' PNone) ''publicIP'' PNone
                = Inr (dict_get p ''publicIP'' PNone)"
    by (simp add: dict_get_def)
  have "deploy T P E C name app_config provider_config s
          = (merge_results (PDict [(''cloudLaunch'', PDict p)]) c_result, s3)"
    by (rule deploy_after_provisioning [OF assms(1-6) host assms(7)])
  then have "deploy T P E C name app_config provider_config s
          = (Inr [(''cloudLaunch'', PDict (dict_merge p c))], s3)"
    by (simp add: merge_results_wrapped [OF assms(8)])
  moreover have "map_of (dict_merge p c) k = (if k \<in> dom (map_of c) then map_of c k else map_of p k)"
    using map_of_dict_merge [OF assms(9), of p k] by (auto split: option.splits)
  ultimately show ?thesis by simp
qed

theorem deploy_merge_precedence_witness:
  "fst (deploy test_task (test_provider network_cloud) test_runtime overriding_collaborators
          ''vm'' fw_app_config test_provider_config [])
     = Inr [(''cloudLaunch'', PDict
              [(''keyPair'', PDict [(''id'', PStr ''kp-1''), (''name'', PStr ''cloudlaunch-key-pair''),
                                    (''material'', PStr ''PRIVATE'')]),
               (''securityGroup'', PDict [(''id'', PStr ''fw-new''), (''name'', PStr ''MyApp'')]),
               (''instance'', PDict [(''id'', PStr ''i-1'')]),
               (''publicIP'', PStr ''app.example.org''),
               (''applicationURL'', PStr ''http://app.example.org/'')])]"
proof -
  let ?P = "test_provider network_cloud"
  let ?appliance = "[(''sshUser'', PStr ''ubuntu''), (''runCmd'', PList [PStr ''apt update''])]"
  let ?p = "[(''keyPair'', PDict [(''id'', PStr ''kp-1''), (''name'', PStr ''cloudlaunch-key-pair''),
                                  (''material'', PStr ''PRIVATE'')]),
             (''securityGroup'', PDict [(''id'', PStr ''fw-new''), (''name'', PStr ''MyApp'')]),
             (''instance'', PDict [(''id'', PStr ''i-1'')]),
             (''publicIP'', PStr ''203.0.113.9'')]"
  let ?c = "[(''publicIP'', PStr ''app.example.org''), (''applicationURL'', PStr ''http://app.example.org/'')]"
  define pc1 where "pc1 = dict_set (dict_set (dict_set (dict_set test_provider_config
                   ''ssh_private_key'' (PStr ''PRIVATE'')) ''ssh_public_key'' (PStr ''ssh-rsa PUBLIC''))
                   ''ssh_user'' (dict_get ?appliance ''sshUser'' PNone))
                   ''run_cmd'' (dict_get ?appliance ''runCmd'' PNone)"
  define r where "r = provision_host test_task ?P test_runtime ''vm'' fw_app_config pc1 [Call ''generate_key_pair'']"
  define s2 where "s2 = snd r"
  define s3 where "s3 = s2 @ [Call ''create_configurer'',
                              Call ''PROGRESSING: Validating provider connection info...'', Call ''validate'',
                              Call ''PROGRESSING: Configuring application...'', Call ''configure'',
                              Call ''PROGRESSING: Application configuration completed successfully.'']"
  have "fst r = Inr [(''cloudLaunch'', PDict ?p)]"
    unfolding r_def pc1_def
    by (simp add: model_defs run_defs fw_app_config_def myapp_group_def test_provider_config_def
          network_cloud_def default_subnet_def subnet_a_def subnet_b_def)
  then have prov: "provision_host test_task ?P test_runtime ''vm'' fw_app_config pc1 [Call ''generate_key_pair'']
                     = (Inr [(''cloudLaunch'', PDict ?p)], s2)"
    unfolding s2_def r_def [symmetric] by (cases r) simp
  have nohost: "\<not> truthy (dict_get test_provider_config ''host_address'' PNone)"
    by (simp add: test_provider_config_def dict_get_def)
  have appl: "dict_get fw_app_config ''config_appliance'' PNone = PDict ?appliance"
    by (simp add: fw_app_config_def dict_get_def)
  have ne: "?appliance \<noteq> []" by simp
  have keys: "generate_key_pair overriding_collaborators []
                = (Inr (''ssh-rsa PUBLIC'', ''PRIVATE''), [Call ''generate_key_pair''])"
    by (simp add: overriding_collaborators_def empty_cloud_def answer_def)
  have conf: "configure_host test_task overriding_collaborators ''vm'' fw_app_config
                (dict_set pc1 ''host_address'' (dict_get ?p ''publicIP'' PNone)) s2
              = (Inr (PDict [(''cloudLaunch'', PDict ?c)]), s3)"
    by (simp add: configure_host_def attempt_def bnd_apply try_except_apply emit_def ret_apply
          overriding_collaborators_def overriding_configurer_def empty_cloud_def answer_def
          test_task_def s3_def)
  have cl: "py_get (PDict [(''cloudLaunch'', PDict ?c)]) ''cloudLaunch'' (PDict []) = Inr (PDict ?c)"
    by (simp add: dict_get_def)
  have d: "distinct (map fst ?c)" by simp
  have m: "dict_merge ?p ?c
             = [(''keyPair'', PDict [(''id'', PStr ''kp-1''), (''name'', PStr ''cloudlaunch-key-pair''),
                                    (''material'', PStr ''PRIVATE'')]),
                (''securityGroup'', PDict [(''id'', PStr ''fw-new''), (''name'', PStr ''MyApp'')]),
                (''instance'', PDict [(''id'', PStr ''i-1'')]),
                (''publicIP'', PStr ''app.example.org''),
                (''applicationURL'', PStr ''http://app.example.org/'')]"
    by (simp add: dict_merge_def)
  from deploy_merge_precedence [OF nohost appl ne keys pc1_def prov conf cl d]
  show ?thesis by (simp add: m)
qed

end
